theory Spec2Isabelle
  imports Main
begin

section \<open>JavaScript strings\<close>

text \<open>
  A JavaScript string is a sequence of UTF-16 code units. The story markers of the
  parser are Chinese, so a string is modelled as the list of its code units
  (natural numbers below 65536); ASCII literals are written through \<open>ascii\<close>.
  Identifiers, status values and messages that the code only compares with ASCII
  literals are kept as HOL strings.
\<close>

type_synonym ustring = "nat list"

definition ascii :: "string \<Rightarrow> ustring" where
  "ascii s = map of_char s"

text \<open>\<open>String.prototype.split\<close> with a one-unit separator, as a scan that keeps
  the piece read so far: the empty string splits into one empty piece.\<close>

fun split_from :: "nat \<Rightarrow> ustring \<Rightarrow> ustring \<Rightarrow> ustring list" where
  "split_from d cur [] = [cur]"
| "split_from d cur (c # cs) =
     (if c = d then cur # split_from d [] cs else split_from d (cur @ [c]) cs)"

definition split_on :: "nat \<Rightarrow> ustring \<Rightarrow> ustring list" where
  "split_on d s = split_from d [] s"

definition newline :: nat where
  "newline = 10"

text \<open>\<open>String.prototype.startsWith\<close>.\<close>

definition starts_with :: "ustring \<Rightarrow> ustring \<Rightarrow> bool" where
  "starts_with p s = (take (length p) s = p)"

text \<open>The code units that \<open>String.prototype.trim\<close> strips: ECMAScript WhiteSpace
  and LineTerminator.\<close>

definition is_ws :: "nat \<Rightarrow> bool" where
  "is_ws c = (c = 0x9 \<or> c = 0xA \<or> c = 0xB \<or> c = 0xC \<or> c = 0xD \<or> c = 0x20
     \<or> c = 0xA0 \<or> c = 0x1680 \<or> (0x2000 \<le> c \<and> c \<le> 0x200A)
     \<or> c = 0x2028 \<or> c = 0x2029 \<or> c = 0x202F \<or> c = 0x205F \<or> c = 0x3000
     \<or> c = 0xFEFF)"

definition trim :: "ustring \<Rightarrow> ustring" where
  "trim s = rev (dropWhile is_ws (rev (dropWhile is_ws s)))"

text \<open>\<open>String.prototype.replace\<close> with a string pattern: only the first occurrence
  is replaced. The replacement used by the parser is the empty string, which has no
  substitution patterns.\<close>

fun replace_first :: "ustring \<Rightarrow> ustring \<Rightarrow> ustring \<Rightarrow> ustring" where
  "replace_first p r [] = (if p = [] then r else [])"
| "replace_first p r (c # cs) =
     (if starts_with p (c # cs) then r @ drop (length p) (c # cs)
      else c # replace_first p r cs)"

definition is_digit :: "nat \<Rightarrow> bool" where
  "is_digit c = (0x30 \<le> c \<and> c \<le> 0x39)"

section \<open>The content parser (\<open>parseStoryContent\<close>)\<close>

text \<open>The line markers of the result route: U+6807 U+9898 U+FF1A (title),
  U+6587 U+5B57 U+FF1A (text), U+56FE U+7247 U+FF1A (image).\<close>

definition title_marker :: ustring where
  "title_marker = [0x6807, 0x9898, 0xFF1A]"

definition text_marker :: ustring where
  "text_marker = [0x6587, 0x5B57, 0xFF1A]"

definition image_marker :: ustring where
  "image_marker = [0x56FE, 0x7247, 0xFF1A]"

text \<open>The page header is a regular expression anchored at both ends: the code
  unit U+7B2C, one or more ASCII digits (the class of decimal digits), the code unit
  U+9875 and an optional full-width colon U+FF1A. The regular expression has no
  capture group and the handler only tests whether the line matches, so the digits
  are matched and never read.\<close>

definition is_page_header :: "ustring \<Rightarrow> bool" where
  "is_page_header line =
     (case line of
        [] \<Rightarrow> False
      | c # rest \<Rightarrow>
          c = 0x7B2C \<and> takeWhile is_digit rest \<noteq> [] \<and>
          (dropWhile is_digit rest = [0x9875] \<or>
           dropWhile is_digit rest = [0x9875, 0xFF1A]))"

record page =
  ptext :: ustring
  pimage :: ustring

record story_data =
  title :: ustring
  pages :: "page list"

text \<open>The loop state of \<open>parseStoryContent\<close>: \<open>title\<close>, \<open>pages\<close> and
  \<open>currentPage\<close> (\<open>None\<close> is \<open>null\<close>).\<close>

record parse_state =
  ps_title :: ustring
  ps_pages :: "page list"
  ps_current :: "page option"

text \<open>\<^verbatim>\<open>if (currentPage && currentPage.text && currentPage.image) pages.push(currentPage)\<close>;
  a string is truthy when it is not empty.\<close>

definition push_current :: "page option \<Rightarrow> page list \<Rightarrow> page list" where
  "push_current cur ps =
     (case cur of
        None \<Rightarrow> ps
      | Some p \<Rightarrow> if ptext p \<noteq> [] \<and> pimage p \<noteq> [] then ps @ [p] else ps)"

definition parse_line :: "parse_state \<Rightarrow> ustring \<Rightarrow> parse_state" where
  "parse_line st line =
     (if starts_with title_marker line then
        st\<lparr>ps_title := trim (replace_first title_marker [] line)\<rparr>
      else if is_page_header line then
        st\<lparr>ps_pages := push_current (ps_current st) (ps_pages st),
           ps_current := Some \<lparr>ptext = [], pimage = []\<rparr>\<rparr>
      else if starts_with text_marker line then
        (case ps_current st of
           None \<Rightarrow> st
         | Some p \<Rightarrow>
             st\<lparr>ps_current := Some (p\<lparr>ptext := trim (replace_first text_marker [] line)\<rparr>)\<rparr>)
      else if starts_with image_marker line then
        (case ps_current st of
           None \<Rightarrow> st
         | Some p \<Rightarrow>
             st\<lparr>ps_current := Some (p\<lparr>pimage := trim (replace_first image_marker [] line)\<rparr>)\<rparr>)
      else st)"

definition content_lines :: "ustring \<Rightarrow> ustring list" where
  "content_lines content =
     filter (\<lambda>line. length line > 0) (map trim (split_on newline content))"

definition parse_init :: parse_state where
  "parse_init = \<lparr>ps_title = [], ps_pages = [], ps_current = None\<rparr>"

definition parse_lines :: "ustring list \<Rightarrow> story_data" where
  "parse_lines ls =
     (let st = foldl parse_line parse_init ls
      in \<lparr>title = ps_title st, pages = push_current (ps_current st) (ps_pages st)\<rparr>)"

definition parseStoryContent :: "ustring \<Rightarrow> story_data" where
  "parseStoryContent content = parse_lines (content_lines content)"

text \<open>For comparison with the parser: the pages that are closed (by a page header or
  by the end of the input) with the fields they hold at that moment, whether the
  fields are filled or not. A page header is a line that the title branch has not
  taken and that matches the header pattern; every other line is handled as the
  parser handles it.\<close>

definition page_complete :: "page \<Rightarrow> bool" where
  "page_complete p = (ptext p \<noteq> [] \<and> pimage p \<noteq> [])"

definition close_any :: "page option \<Rightarrow> page list \<Rightarrow> page list" where
  "close_any cur ps = (case cur of None \<Rightarrow> ps | Some p \<Rightarrow> ps @ [p])"

definition track_line :: "parse_state \<Rightarrow> ustring \<Rightarrow> parse_state" where
  "track_line st line =
     (if \<not> starts_with title_marker line \<and> is_page_header line then
        st\<lparr>ps_pages := close_any (ps_current st) (ps_pages st),
           ps_current := Some \<lparr>ptext = [], pimage = []\<rparr>\<rparr>
      else parse_line st line)"

definition closed_pages :: "ustring list \<Rightarrow> page list" where
  "closed_pages ls =
     (let st = foldl track_line parse_init ls
      in close_any (ps_current st) (ps_pages st))"

section \<open>The stream reconciler (the read loop of the result route)\<close>

text \<open>
  \<open>JSON.parse\<close> belongs to the runtime, so it is a parameter of the model. The loop
  reads three properties of what it decodes, \<open>type\<close>, \<open>content\<close> and \<open>role\<close>;
  \<open>None\<close> stands for every input on which the body of the \<open>try\<close> throws (a syntax
  error, or a property read on \<open>null\<close>), which the \<open>catch\<close> ignores. The chunks are
  the texts that \<open>decoder.decode(value)\<close> returns for the successive reads.
\<close>

record sse_data =
  d_type :: string
  d_content :: ustring
  d_role :: string

type_synonym json_parse = "ustring \<Rightarrow> sse_data option"

type_synonym stream_acc = "ustring \<times> sse_data list"

definition process_line :: "json_parse \<Rightarrow> stream_acc \<Rightarrow> ustring \<Rightarrow> stream_acc" where
  "process_line jp acc line =
     (if starts_with (ascii ''data: '') line then
        (case jp (drop 6 line) of
           None \<Rightarrow> acc
         | Some d \<Rightarrow>
             if d_type d = ''message'' \<and> d_content d \<noteq> [] then
               (if d_role d = ''assistant'' then fst acc @ d_content d else fst acc,
                snd acc @ [d])
             else acc)
      else acc)"

definition process_chunk :: "json_parse \<Rightarrow> stream_acc \<Rightarrow> ustring \<Rightarrow> stream_acc" where
  "process_chunk jp acc chunk = foldl (process_line jp) acc (split_on newline chunk)"

definition read_stream :: "json_parse \<Rightarrow> ustring list \<Rightarrow> stream_acc" where
  "read_stream jp chunks = foldl (process_chunk jp) ([], []) chunks"

text \<open>One event frame and what \<open>JSON.parse\<close> makes of it and of its truncation.\<close>

definition sample_payload :: ustring where
  \<open>sample_payload = ascii ''{"type":"message","role":"assistant","content":"Hi"}''\<close>

definition sample_parse :: json_parse where
  "sample_parse s =
     (if s = sample_payload
      then Some \<lparr>d_type = ''message'', d_content = ascii ''Hi'', d_role = ''assistant''\<rparr>
      else None)"

definition sample_line :: ustring where
  "sample_line = ascii ''data: '' @ sample_payload @ [newline]"

section \<open>Storage\<close>

text \<open>
  The tables are lists of rows. A query ending in \<open>.single()\<close> yields the row when
  exactly one row matches and the error code \<open>PGRST116\<close> otherwise; a storage error
  yields its own code. Storage errors are inputs of the model: an optional error code
  or message for a read and for a write. A write that storage rejects leaves the table
  as it was, whether the code inspects the result of the write or not.
\<close>

datatype 'a fetched = Row 'a | Failed string

definition single :: "'a list \<Rightarrow> 'a fetched" where
  "single rows = (case rows of [r] \<Rightarrow> Row r | _ \<Rightarrow> Failed ''PGRST116'')"

definition query_single :: "string option \<Rightarrow> 'a list \<Rightarrow> 'a fetched" where
  "query_single fault rows =
     (case fault of Some code \<Rightarrow> Failed code | None \<Rightarrow> single rows)"

definition fresh_id :: "nat list \<Rightarrow> nat" where
  "fresh_id ids = Suc (fold max ids 0)"

datatype js_error = JsError string

subsection \<open>The rate limiter (\<open>checkRateLimit\<close>)\<close>

text \<open>
  Times are milliseconds since the epoch. The window start is computed on the local
  clock of the server, \<^verbatim>\<open>windowStart.setMinutes(windowStart.getMinutes() - 60)\<close>,
  so the time zone of the server is an input: the offset of local time at an instant,
  and the offset that applies to a local time value when it is turned back into an
  instant. \<open>Date.prototype.setMinutes\<close> replaces the minutes of the local time value
  and converts the result back.
\<close>

record time_zone =
  tz_at_instant :: "int \<Rightarrow> int"
  tz_at_local :: "int \<Rightarrow> int"

definition utc_zone :: time_zone where
  "utc_zone = \<lparr>tz_at_instant = (\<lambda>t. 0), tz_at_local = (\<lambda>t. 0)\<rparr>"

text \<open>A zone whose local clock is put forward by one hour at the instant \<open>T\<close>: local
  time values of the skipped hour are read with the offset before the change.\<close>

definition clock_forward_zone :: "int \<Rightarrow> time_zone" where
  "clock_forward_zone T =
     \<lparr>tz_at_instant = (\<lambda>t. if t < T then 0 else 60 * 60000),
      tz_at_local = (\<lambda>l. if l < T + 60 * 60000 then 0 else 60 * 60000)\<rparr>"

definition local_time :: "time_zone \<Rightarrow> int \<Rightarrow> int" where
  "local_time zone t = t + tz_at_instant zone t"

definition utc_time :: "time_zone \<Rightarrow> int \<Rightarrow> int" where
  "utc_time zone t = t - tz_at_local zone t"

definition min_from_time :: "int \<Rightarrow> int" where
  "min_from_time t = (t div 60000) mod 60"

definition getMinutes :: "time_zone \<Rightarrow> int \<Rightarrow> int" where
  "getMinutes zone t = min_from_time (local_time zone t)"

definition setMinutes :: "time_zone \<Rightarrow> int \<Rightarrow> int \<Rightarrow> int" where
  "setMinutes zone t m =
     utc_time zone (local_time zone t - 60000 * min_from_time (local_time zone t) + 60000 * m)"

definition window_start :: "time_zone \<Rightarrow> int \<Rightarrow> int" where
  "window_start zone now = setMinutes zone now (getMinutes zone now - 60)"

text \<open>\<open>rl_window_start\<close> is the time of the insert.\<close>

record rl_row =
  rl_id :: nat
  rl_user_id :: string
  rl_endpoint :: string
  rl_request_count :: int
  rl_window_start :: int
  rl_max_requests :: int
  rl_updated_at :: int

text \<open>The insert of a window row: storage may reject it (\<open>wfault\<close>), and the table is
  unique on user, endpoint and window start. The result of the insert is not
  inspected, so a rejected insert leaves the table as it is and goes unnoticed.\<close>

definition rl_insert :: "string option \<Rightarrow> rl_row \<Rightarrow> rl_row list \<Rightarrow> rl_row list" where
  "rl_insert wfault row tbl =
     (if wfault \<noteq> None \<or>
         list_ex (\<lambda>r. rl_user_id r = rl_user_id row \<and> rl_endpoint r = rl_endpoint row
                     \<and> rl_window_start r = rl_window_start row) tbl
      then tbl else tbl @ [row])"

text \<open>The update of the count of a window row, by its id; its result is not inspected
  either.\<close>

definition rl_update :: "string option \<Rightarrow> nat \<Rightarrow> int \<Rightarrow> int \<Rightarrow> rl_row list \<Rightarrow> rl_row list" where
  "rl_update wfault rowId newCount wnow tbl =
     (if wfault \<noteq> None then tbl
      else map (\<lambda>r. if rl_id r = rowId
                     then r\<lparr>rl_request_count := newCount, rl_updated_at := wnow\<rparr>
                     else r) tbl)"

definition in_window :: "string \<Rightarrow> string \<Rightarrow> int \<Rightarrow> rl_row list \<Rightarrow> rl_row list" where
  "in_window userId endpoint windowStart tbl =
     filter (\<lambda>r. rl_user_id r = userId \<and> rl_endpoint r = endpoint
                \<and> rl_window_start r \<ge> windowStart) tbl"

text \<open>\<open>zone\<close> is the time zone of the server, \<open>fault\<close> the storage error of the
  lookup, \<open>wfault\<close> that of the write, \<open>now\<close> the clock at entry and \<open>wnow\<close> the
  clock when the row is written.\<close>

definition checkRateLimit ::
  "time_zone \<Rightarrow> string option \<Rightarrow> string option \<Rightarrow> int \<Rightarrow> int \<Rightarrow> string \<Rightarrow> string \<Rightarrow> int
     \<Rightarrow> rl_row list \<Rightarrow> bool \<times> rl_row list" where
  "checkRateLimit zone fault wfault now wnow userId endpoint maxRequests tbl =
     (let windowStart = window_start zone now in
      case query_single fault (in_window userId endpoint windowStart tbl) of
        Failed code \<Rightarrow>
          if code \<noteq> ''PGRST116'' then (True, tbl)
          else (True, rl_insert wfault
                  \<lparr>rl_id = fresh_id (map rl_id tbl), rl_user_id = userId,
                   rl_endpoint = endpoint, rl_request_count = 1, rl_window_start = wnow,
                   rl_max_requests = maxRequests, rl_updated_at = wnow\<rparr> tbl)
      | Row existing \<Rightarrow>
          if rl_request_count existing \<ge> maxRequests then (False, tbl)
          else (True, rl_update wfault (rl_id existing) (rl_request_count existing + 1)
                        wnow tbl))"


subsection \<open>Tasks and job mappings\<close>

text \<open>
  What the handlers read of a response of the generation service. \<open>None\<close> is an
  absent property; \<open>sd_error\<close> distinguishes an absent property (\<open>None\<close>) from
  \<open>null\<close> (\<open>Some None\<close>), because an absent property is left out of an update while
  \<open>null\<close> is written.
\<close>

record suna_data =
  sd_thread_id :: "string option"
  sd_agent_run_id :: "string option"
  sd_status :: "string option"
  sd_error :: "string option option"

record request_data =
  rd_story_description :: ustring
  rd_tags :: "ustring list option"
  rd_custom_tags :: "ustring list option"

record task_row =
  t_id :: string
  t_user_id :: string
  t_story_description :: ustring
  t_tags :: "ustring list option"
  t_custom_tags :: "ustring list option"
  t_status :: string
  t_progress :: "int option"
  t_error_message :: "string option"
  t_suna_thread_id :: "string option"
  t_suna_agent_run_id :: "string option"
  t_created_at :: int
  t_updated_at :: int
  t_completed_at :: "int option"

record mapping_row =
  m_local_task_id :: string
  m_user_id :: string
  m_suna_thread_id :: "string option"
  m_suna_agent_run_id :: "string option"
  m_status :: string
  m_request_data :: "request_data option"
  m_response_data :: "suna_data option"
  m_error_message :: "string option"
  m_retry_count :: int
  m_max_retries :: int
  m_updated_at :: int

text \<open>The argument of \<open>updateSunaTaskStatus\<close>, a partial row: \<open>None\<close> is a key that
  is absent (or \<open>undefined\<close>) and leaves the column as it is.\<close>

record mapping_patch =
  up_suna_thread_id :: "string option"
  up_suna_agent_run_id :: "string option"
  up_status :: "string option"
  up_response_data :: "suna_data option"
  up_error_message :: "string option option"

definition set_if :: "'a option \<Rightarrow> 'a \<Rightarrow> 'a" where
  "set_if new old = (case new of None \<Rightarrow> old | Some v \<Rightarrow> v)"

definition apply_patch :: "int \<Rightarrow> mapping_patch \<Rightarrow> mapping_row \<Rightarrow> mapping_row" where
  "apply_patch now p r =
     r\<lparr>m_suna_thread_id := set_if (map_option Some (up_suna_thread_id p)) (m_suna_thread_id r),
       m_suna_agent_run_id := set_if (map_option Some (up_suna_agent_run_id p)) (m_suna_agent_run_id r),
       m_status := set_if (up_status p) (m_status r),
       m_response_data := set_if (map_option Some (up_response_data p)) (m_response_data r),
       m_error_message := set_if (up_error_message p) (m_error_message r),
       m_updated_at := now\<rparr>"

text \<open>\<open>updateSunaTaskStatus\<close> throws the storage error of the update.\<close>

definition updateSunaTaskStatus ::
  "string option \<Rightarrow> int \<Rightarrow> string \<Rightarrow> mapping_patch \<Rightarrow> mapping_row list \<Rightarrow> js_error + mapping_row list" where
  "updateSunaTaskStatus fault now localTaskId updates tbl =
     (case fault of
        Some msg \<Rightarrow> Inl (JsError msg)
      | None \<Rightarrow>
          Inr (map (\<lambda>r. if m_local_task_id r = localTaskId then apply_patch now updates r else r) tbl))"

text \<open>\<open>getSunaTaskMapping\<close>: \<open>null\<close> when no single row matches, a thrown error on
  any other failure.\<close>

definition getSunaTaskMapping ::
  "string option \<Rightarrow> string \<Rightarrow> mapping_row list \<Rightarrow> js_error + mapping_row option" where
  "getSunaTaskMapping fault localTaskId tbl =
     (case query_single fault (filter (\<lambda>r. m_local_task_id r = localTaskId) tbl) of
        Row r \<Rightarrow> Inr (Some r)
      | Failed code \<Rightarrow> if code = ''PGRST116'' then Inr None else Inl (JsError code))"

text \<open>\<open>createSunaTaskMapping\<close>: the table is unique on the local task id, and the
  error of a rejected insert is thrown.\<close>

definition createSunaTaskMapping ::
  "string option \<Rightarrow> mapping_row \<Rightarrow> mapping_row list \<Rightarrow> js_error + mapping_row list" where
  "createSunaTaskMapping fault row tbl =
     (case fault of
        Some msg \<Rightarrow> Inl (JsError msg)
      | None \<Rightarrow>
          if list_ex (\<lambda>r. m_local_task_id r = m_local_task_id row) tbl
          then Inl (JsError ''duplicate key value violates unique constraint'')
          else Inr (tbl @ [row]))"

subsection \<open>Storybooks\<close>

record storybook_row =
  sb_id :: nat
  sb_title :: ustring
  sb_description :: ustring
  sb_generation_task_id :: string
  sb_created_at :: int

record page_row =
  pg_storybook_id :: nat
  pg_page_number :: nat
  pg_content :: ustring
  pg_image_description :: ustring
  pg_created_at :: int

record user_storybook_row =
  us_user_id :: string
  us_storybook_id :: nat
  us_created_at :: int

record store =
  tasks :: "task_row list"
  mappings :: "mapping_row list"
  rate_limits :: "rl_row list"
  storybooks :: "storybook_row list"
  storybook_pages :: "page_row list"
  user_storybooks :: "user_storybook_row list"

section \<open>The request handlers\<close>

text \<open>
  A handler is a function of the store and of what its collaborators answer during
  the request: the verified user, the session token, the clock (one reading for the
  request), the storage errors and the response of the generation service. It returns
  the HTTP response and the store it leaves. The audit records (\<open>logRequest\<close>,
  \<open>logError\<close>, \<open>recordMetric\<close>) go to tables that no handler reads and their
  failures are only printed, so they are left out. Every other write can be rejected
  by storage: where the code inspects the result it takes the branch of the code,
  where it does not the handler goes on with the table unchanged.
\<close>

record 'b response =
  http_status :: nat
  body :: 'b

datatype 'a fetch_outcome = FetchThrows string | FetchNotOk nat | FetchOk 'a

record req_env =
  e_user :: "string option"
  e_jwt :: "string option"
  e_now :: int
  e_zone :: time_zone
  e_rl_fault :: "string option"
  e_rl_write_fault :: "string option"
  e_task_fault :: "string option"
  e_task_write_fault :: "string option"
  e_mapping_read_fault :: "string option"
  e_mapping_write_fault :: "string option"

text \<open>A string, possibly \<open>null\<close>, used as a condition.\<close>

definition truthy :: "string option \<Rightarrow> bool" where
  "truthy x = (case x of None \<Rightarrow> False | Some v \<Rightarrow> v \<noteq> [])"

definition find_task :: "string option \<Rightarrow> string \<Rightarrow> string \<Rightarrow> task_row list \<Rightarrow> task_row fetched" where
  "find_task fault taskId userId tbl =
     query_single fault (filter (\<lambda>t. t_id t = taskId \<and> t_user_id t = userId) tbl)"

text \<open>The decimal numeral of a number, as a template literal prints an HTTP status.\<close>

fun decimal :: "nat \<Rightarrow> string" where
  "decimal n =
     (if n < 10 then [''0123456789'' ! n]
      else decimal (n div 10) @ [''0123456789'' ! (n mod 10)])"

subsection \<open>Status check (\<open>GET /api/suna/status\<close>)\<close>

record status_info =
  si_task_id :: string
  si_status :: string
  si_progress :: int
  si_created_at :: int
  si_updated_at :: int
  si_completed_at :: "int option"
  si_error_message :: "string option"
  si_suna_thread_id :: "string option"
  si_suna_agent_run_id :: "string option"

datatype status_body =
    StatusError string
  | StatusNoMapping string string string
  | StatusInfo status_info

record status_env = req_env +
  s_task_id :: "string option"
  s_poll :: "suna_data fetch_outcome"

definition task_write_through ::
  "string \<Rightarrow> string \<Rightarrow> int \<Rightarrow> string option option \<Rightarrow> task_row \<Rightarrow> task_row" where
  "task_write_through taskId newStatus now err t =
     (if t_id t = taskId
      then t\<lparr>t_status := newStatus, t_completed_at := Some now,
             t_error_message := set_if err (t_error_message t)\<rparr>
      else t)"

text \<open>The update of rows of the task table by task id. The handlers do not inspect its
  result: when storage rejects it, the table stays as it was.\<close>

definition update_tasks ::
  "string option \<Rightarrow> (task_row \<Rightarrow> task_row) \<Rightarrow> task_row list \<Rightarrow> task_row list" where
  "update_tasks wfault f tbl = (if wfault \<noteq> None then tbl else map f tbl)"

text \<open>The \<open>try\<close> block of the status check, entered when the task is processing and
  the mapping has a run id. It returns the handler's copy of the task and the store.
  An error thrown inside (by the request, by reading its body, or by the update of the
  mapping) is caught and logged, and the handler goes on with its copy unchanged.\<close>

definition status_poll ::
  "status_env \<Rightarrow> string \<Rightarrow> task_row \<Rightarrow> store \<Rightarrow> task_row \<times> store" where
  "status_poll env taskId task s =
     (if truthy (e_jwt env) then
        (case s_poll env of
           FetchThrows msg \<Rightarrow> (task, s)
         | FetchNotOk code \<Rightarrow> (task, s)
         | FetchOk sunaData \<Rightarrow>
             if sd_status sunaData = Some ''completed'' \<or> sd_status sunaData = Some ''failed'' then
               (let newStatus = (if sd_status sunaData = Some ''completed''
                                 then ''completed'' else ''failed'');
                    s1 = s\<lparr>tasks := update_tasks (e_task_write_fault env)
                                     (task_write_through taskId newStatus (e_now env)
                                        (sd_error sunaData)) (tasks s)\<rparr>
                in case updateSunaTaskStatus (e_mapping_write_fault env) (e_now env) taskId
                          \<lparr>up_suna_thread_id = None, up_suna_agent_run_id = None,
                           up_status = Some newStatus, up_response_data = Some sunaData,
                           up_error_message = sd_error sunaData\<rparr> (mappings s1) of
                     Inl err \<Rightarrow> (task, s1)
                   | Inr ms \<Rightarrow>
                       (task\<lparr>t_status := newStatus, t_completed_at := Some (e_now env),
                             t_error_message := (case sd_error sunaData of None \<Rightarrow> None | Some v \<Rightarrow> v)\<rparr>,
                        s1\<lparr>mappings := ms\<rparr>))
             else (task, s))
      else (task, s))"

definition status_reply :: "string \<Rightarrow> task_row \<Rightarrow> mapping_row \<Rightarrow> status_body response" where
  "status_reply taskId task sunaMapping =
     \<lparr>http_status = 200,
      body = StatusInfo
        \<lparr>si_task_id = taskId, si_status = t_status task,
         si_progress = (case t_progress task of None \<Rightarrow> 0 | Some n \<Rightarrow> n),
         si_created_at = t_created_at task, si_updated_at = t_updated_at task,
         si_completed_at = t_completed_at task, si_error_message = t_error_message task,
         si_suna_thread_id = m_suna_thread_id sunaMapping,
         si_suna_agent_run_id = m_suna_agent_run_id sunaMapping\<rparr>\<rparr>"

text \<open>The handler after authentication and rate limiting.\<close>

definition status_task ::
  "status_env \<Rightarrow> string \<Rightarrow> string \<Rightarrow> store \<Rightarrow> status_body response \<times> store" where
  "status_task env taskId userId s =
     (case find_task (e_task_fault env) taskId userId (tasks s) of
        Failed code \<Rightarrow> (\<lparr>http_status = 404, body = StatusError ''Task not found''\<rparr>, s)
      | Row task \<Rightarrow>
          (case getSunaTaskMapping (e_mapping_read_fault env) taskId (mappings s) of
             Inl err \<Rightarrow> (\<lparr>http_status = 500, body = StatusError ''Internal server error''\<rparr>, s)
           | Inr None \<Rightarrow>
               (\<lparr>http_status = 200,
                 body = StatusNoMapping taskId (t_status task) ''Task mapping not found''\<rparr>, s)
           | Inr (Some sunaMapping) \<Rightarrow>
               (let (task1, s1) =
                      (if t_status task = ''processing'' \<and> truthy (m_suna_agent_run_id sunaMapping)
                       then status_poll env taskId task s else (task, s))
                in (status_reply taskId task1 sunaMapping, s1))))"

definition status_GET :: "status_env \<Rightarrow> store \<Rightarrow> status_body response \<times> store" where
  "status_GET env s =
     (if \<not> truthy (s_task_id env) then
        (\<lparr>http_status = 400, body = StatusError ''Task ID is required''\<rparr>, s)
      else
        (case e_user env of
           None \<Rightarrow> (\<lparr>http_status = 401, body = StatusError ''Unauthorized''\<rparr>, s)
         | Some userId \<Rightarrow>
             (let (rateLimitOk, rl) =
                    checkRateLimit (e_zone env) (e_rl_fault env) (e_rl_write_fault env) (e_now env) (e_now env) userId
                      ''/api/suna/status'' 200 (rate_limits s);
                  s0 = s\<lparr>rate_limits := rl\<rparr>
              in if \<not> rateLimitOk then
                   (\<lparr>http_status = 429,
                     body = StatusError ''Rate limit exceeded. Please try again later.''\<rparr>, s0)
                 else status_task env (the (s_task_id env)) userId s0)))"

subsection \<open>Result fetch (\<open>GET /api/suna/result\<close>)\<close>

record storybook_view =
  sv_storybook :: storybook_row
  sv_pages :: "page_row list"

text \<open>The bodies of the result route: an error; the state of a task that is not
  completed (task id, status, message, error message); a storybook with the raw
  content (task id, status, storybook, raw content); a parse failure (task id, status,
  raw content, error); a failed fetch (task id, status, error).\<close>

datatype result_body =
    ResultError string
  | ResultNotCompleted string string string "string option"
  | ResultStorybook string string storybook_view ustring
  | ResultParseFailed string string ustring string
  | ResultFetchFailed string string string

record result_env = req_env +
  r_task_id :: "string option"
  r_stream :: "ustring list option fetch_outcome"
  r_json_parse :: json_parse
  r_storybook_read_fault :: "string option"
  r_storybook_insert_fault :: "string option"
  r_pages_insert_fault :: "string option"
  r_user_storybook_insert_fault :: "string option"

text \<open>\<^verbatim>\<open>storyData.pages.map((page, index) => ({ ..., page_number: index + 1, ... }))\<close>\<close>

definition page_rows :: "nat \<Rightarrow> int \<Rightarrow> page list \<Rightarrow> page_row list" where
  "page_rows storybook_id now ps =
     map (\<lambda>(index, page).
            \<lparr>pg_storybook_id = storybook_id, pg_page_number = index + 1,
             pg_content = ptext page, pg_image_description = pimage page,
             pg_created_at = now\<rparr>)
         (enumerate 0 ps)"

text \<open>What follows the read loop: parse, look for a storybook of the task, and write
  a new one. The first component is \<open>Inl\<close> when the code throws; the store comes back
  in either case, with the writes made before the throw. The result of the last
  insert, into the table that links users and storybooks, is not inspected.\<close>

definition result_store ::
  "result_env \<Rightarrow> string \<Rightarrow> string \<Rightarrow> task_row \<Rightarrow> ustring \<Rightarrow> store
     \<Rightarrow> (js_error + result_body response) \<times> store" where
  "result_store env taskId userId task result s =
     (let storyData = parseStoryContent result in
      case query_single (r_storybook_read_fault env)
             (filter (\<lambda>b. sb_generation_task_id b = taskId) (storybooks s)) of
        Row existingStorybook \<Rightarrow>
          (Inr \<lparr>http_status = 200,
                body = ResultStorybook taskId ''completed''
                  \<lparr>sv_storybook = existingStorybook,
                   sv_pages = filter (\<lambda>p. pg_storybook_id p = sb_id existingStorybook)
                                (storybook_pages s)\<rparr> result\<rparr>, s)
      | Failed code \<Rightarrow>
          if title storyData \<noteq> [] \<and> length (pages storyData) > 0 then
            (case r_storybook_insert_fault env of
               Some msg \<Rightarrow> (Inl (JsError (''Failed to create storybook: '' @ msg)), s)
             | None \<Rightarrow>
                 (let newStorybook =
                        \<lparr>sb_id = fresh_id (map sb_id (storybooks s)), sb_title = title storyData,
                         sb_description = t_story_description task,
                         sb_generation_task_id = taskId, sb_created_at = e_now env\<rparr>;
                      s1 = s\<lparr>storybooks := storybooks s @ [newStorybook]\<rparr>;
                      newPages = page_rows (sb_id newStorybook) (e_now env) (pages storyData)
                  in case r_pages_insert_fault env of
                       Some msg \<Rightarrow> (Inl (JsError (''Failed to create pages: '' @ msg)), s1)
                     | None \<Rightarrow>
                         (Inr \<lparr>http_status = 200,
                               body = ResultStorybook taskId ''completed''
                                 \<lparr>sv_storybook = newStorybook, sv_pages = newPages\<rparr> result\<rparr>,
                          s1\<lparr>storybook_pages := storybook_pages s1 @ newPages,
                             user_storybooks :=
                               (if r_user_storybook_insert_fault env \<noteq> None
                                then user_storybooks s1
                                else user_storybooks s1 @
                                  [\<lparr>us_user_id = userId, us_storybook_id = sb_id newStorybook,
                                    us_created_at = e_now env\<rparr>])\<rparr>)))
          else
            (Inr \<lparr>http_status = 200,
                  body = ResultParseFailed taskId ''completed'' result
                           ''Failed to parse story content''\<rparr>, s))"

text \<open>The inner \<open>try\<close> block: the session token, the request for the stream, the read
  loop, and then \<open>result_store\<close>.\<close>

definition result_fetch ::
  "result_env \<Rightarrow> string \<Rightarrow> string \<Rightarrow> task_row \<Rightarrow> store
     \<Rightarrow> (js_error + result_body response) \<times> store" where
  "result_fetch env taskId userId task s =
     (if \<not> truthy (e_jwt env) then
        (Inr \<lparr>http_status = 401, body = ResultError ''No valid session''\<rparr>, s)
      else
        (case r_stream env of
           FetchThrows msg \<Rightarrow> (Inl (JsError msg), s)
         | FetchNotOk code \<Rightarrow> (Inl (JsError (''Suna AI API error: '' @ decimal code)), s)
         | FetchOk stream_body \<Rightarrow>
             (let result = (case stream_body of
                              None \<Rightarrow> []
                            | Some chunks \<Rightarrow> fst (read_stream (r_json_parse env) chunks))
              in result_store env taskId userId task result s)))"

definition result_task ::
  "result_env \<Rightarrow> string \<Rightarrow> string \<Rightarrow> store \<Rightarrow> result_body response \<times> store" where
  "result_task env taskId userId s =
     (case find_task (e_task_fault env) taskId userId (tasks s) of
        Failed code \<Rightarrow> (\<lparr>http_status = 404, body = ResultError ''Task not found''\<rparr>, s)
      | Row task \<Rightarrow>
          if t_status task \<noteq> ''completed'' then
            (\<lparr>http_status = 200,
              body = ResultNotCompleted taskId (t_status task)
                       (if t_status task = ''processing'' then ''Task is still processing''
                        else ''Task not completed'')
                       (t_error_message task)\<rparr>, s)
          else
            (case getSunaTaskMapping (e_mapping_read_fault env) taskId (mappings s) of
               Inl err \<Rightarrow> (\<lparr>http_status = 500, body = ResultError ''Internal server error''\<rparr>, s)
             | Inr sunaMapping \<Rightarrow>
                 if sunaMapping = None \<or> \<not> truthy (m_suna_agent_run_id (the sunaMapping)) then
                   (\<lparr>http_status = 404, body = ResultError ''Task mapping not found''\<rparr>, s)
                 else
                   (case result_fetch env taskId userId task s of
                      (Inl sunaError, s1) \<Rightarrow>
                        (\<lparr>http_status = 500,
                          body = ResultFetchFailed taskId ''error''
                                   ''Failed to fetch result from Suna AI''\<rparr>, s1)
                    | (Inr resp, s1) \<Rightarrow> (resp, s1))))"

definition result_GET :: "result_env \<Rightarrow> store \<Rightarrow> result_body response \<times> store" where
  "result_GET env s =
     (if \<not> truthy (r_task_id env) then
        (\<lparr>http_status = 400, body = ResultError ''Task ID is required''\<rparr>, s)
      else
        (case e_user env of
           None \<Rightarrow> (\<lparr>http_status = 401, body = ResultError ''Unauthorized''\<rparr>, s)
         | Some userId \<Rightarrow>
             (let (rateLimitOk, rl) =
                    checkRateLimit (e_zone env) (e_rl_fault env) (e_rl_write_fault env) (e_now env) (e_now env) userId
                      ''/api/suna/result'' 100 (rate_limits s);
                  s0 = s\<lparr>rate_limits := rl\<rparr>
              in if \<not> rateLimitOk then
                   (\<lparr>http_status = 429,
                     body = ResultError ''Rate limit exceeded. Please try again later.''\<rparr>, s0)
                 else result_task env (the (r_task_id env)) userId s0)))"

subsection \<open>Submit (\<open>POST /api/suna/generate\<close>)\<close>

text \<open>The bodies of the submit route: an error; a started job (task id, thread id,
  run id, status, message); a failed start (task id, status, error).\<close>

datatype generate_body =
    GenError string
  | GenStarted string "string option" "string option" string string
  | GenFailed string string string

text \<open>\<open>g_request\<close> is the parsed request body (\<open>None\<close> when \<open>request.json()\<close>
  throws), \<open>g_new_task_id\<close> the identifier that \<open>uuidv4()\<close> returns, \<open>g_init\<close> the
  answer of the generation service to the request that initiates the job: the request
  throws, or it answers with a status that is not a success, or it answers with a
  body. The prompt sent along is built from the request and read by the service
  only.\<close>

record generate_env = req_env +
  g_request :: "request_data option"
  g_new_task_id :: string
  g_task_insert_fault :: "string option"
  g_mapping_create_fault :: "string option"
  g_init :: "suna_data fetch_outcome"

text \<open>The \<open>catch (sunaError)\<close> block.\<close>

definition generate_failed ::
  "generate_env \<Rightarrow> string \<Rightarrow> string \<Rightarrow> store \<Rightarrow> (js_error + generate_body response) \<times> store" where
  "generate_failed env localTaskId message s =
     (let s1 = s\<lparr>tasks := update_tasks (e_task_write_fault env)
                             (\<lambda>t. if t_id t = localTaskId
                                  then t\<lparr>t_status := ''failed'', t_error_message := Some message\<rparr>
                                  else t) (tasks s)\<rparr>
      in case updateSunaTaskStatus (e_mapping_write_fault env) (e_now env) localTaskId
                \<lparr>up_suna_thread_id = None, up_suna_agent_run_id = None,
                 up_status = Some ''failed'', up_response_data = None,
                 up_error_message = Some (Some message)\<rparr> (mappings s1) of
           Inl err \<Rightarrow> (Inl err, s1)
         | Inr ms \<Rightarrow>
             (Inr \<lparr>http_status = 500,
                   body = GenFailed localTaskId ''failed'' ''Failed to start story generation''\<rparr>,
              s1\<lparr>mappings := ms\<rparr>))"

text \<open>The \<open>try\<close> block around the call of the generation service.\<close>

definition generate_start ::
  "generate_env \<Rightarrow> string \<Rightarrow> store \<Rightarrow> (js_error + generate_body response) \<times> store" where
  "generate_start env localTaskId s =
     (case g_init env of
        FetchThrows msg \<Rightarrow> generate_failed env localTaskId msg s
      | FetchNotOk code \<Rightarrow>
          generate_failed env localTaskId (''Suna AI API error: '' @ decimal code) s
      | FetchOk sunaData \<Rightarrow>
          (let s1 = s\<lparr>tasks := update_tasks (e_task_write_fault env) (\<lambda>t. if t_id t = localTaskId
                         then t\<lparr>t_status := ''processing'',
                                t_suna_thread_id :=
                                  set_if (map_option Some (sd_thread_id sunaData)) (t_suna_thread_id t),
                                t_suna_agent_run_id :=
                                  set_if (map_option Some (sd_agent_run_id sunaData)) (t_suna_agent_run_id t)\<rparr>
                         else t) (tasks s)\<rparr>
           in case updateSunaTaskStatus (e_mapping_write_fault env) (e_now env) localTaskId
                     \<lparr>up_suna_thread_id = sd_thread_id sunaData,
                      up_suna_agent_run_id = sd_agent_run_id sunaData,
                      up_status = Some ''processing'', up_response_data = Some sunaData,
                      up_error_message = None\<rparr> (mappings s1) of
                Inl (JsError msg) \<Rightarrow> generate_failed env localTaskId msg s1
              | Inr ms \<Rightarrow>
                  (Inr \<lparr>http_status = 200,
                        body = GenStarted localTaskId (sd_thread_id sunaData)
                                 (sd_agent_run_id sunaData) ''processing''
                                 ''Story generation started successfully''\<rparr>,
                   s1\<lparr>mappings := ms\<rparr>)))"

text \<open>The handler from the creation of the task on. The task table has the task id as
  its key.\<close>

definition generate_task ::
  "generate_env \<Rightarrow> request_data \<Rightarrow> string \<Rightarrow> store \<Rightarrow> generate_body response \<times> store" where
  "generate_task env requestData userId s =
     (let localTaskId = g_new_task_id env in
      if g_task_insert_fault env \<noteq> None \<or> list_ex (\<lambda>t. t_id t = localTaskId) (tasks s) then
        (\<lparr>http_status = 500, body = GenError ''Failed to create task''\<rparr>, s)
      else
        (let s1 = s\<lparr>tasks := tasks s @
                    [\<lparr>t_id = localTaskId, t_user_id = userId,
                      t_story_description = rd_story_description requestData,
                      t_tags = rd_tags requestData, t_custom_tags = rd_custom_tags requestData,
                      t_status = ''pending'', t_progress = None, t_error_message = None,
                      t_suna_thread_id = None, t_suna_agent_run_id = None,
                      t_created_at = e_now env, t_updated_at = e_now env,
                      t_completed_at = None\<rparr>]\<rparr>
         in case createSunaTaskMapping (g_mapping_create_fault env)
                   \<lparr>m_local_task_id = localTaskId, m_user_id = userId,
                    m_suna_thread_id = None, m_suna_agent_run_id = None,
                    m_status = ''pending'', m_request_data = Some requestData,
                    m_response_data = None, m_error_message = None,
                    m_retry_count = 0, m_max_retries = 3, m_updated_at = e_now env\<rparr>
                   (mappings s1) of
              Inl err \<Rightarrow> (\<lparr>http_status = 500, body = GenError ''Internal server error''\<rparr>, s1)
            | Inr ms \<Rightarrow>
                (case generate_start env localTaskId (s1\<lparr>mappings := ms\<rparr>) of
                   (Inl err, s2) \<Rightarrow>
                     (\<lparr>http_status = 500, body = GenError ''Internal server error''\<rparr>, s2)
                 | (Inr resp, s2) \<Rightarrow> (resp, s2))))"

definition generate_POST :: "generate_env \<Rightarrow> store \<Rightarrow> generate_body response \<times> store" where
  "generate_POST env s =
     (case g_request env of
        None \<Rightarrow> (\<lparr>http_status = 500, body = GenError ''Internal server error''\<rparr>, s)
      | Some requestData \<Rightarrow>
          (case e_user env of
             None \<Rightarrow> (\<lparr>http_status = 401, body = GenError ''Unauthorized''\<rparr>, s)
           | Some userId \<Rightarrow>
               (let (rateLimitOk, rl) =
                      checkRateLimit (e_zone env) (e_rl_fault env) (e_rl_write_fault env) (e_now env) (e_now env) userId
                        ''/api/suna/generate'' 50 (rate_limits s);
                    s0 = s\<lparr>rate_limits := rl\<rparr>
                in if \<not> rateLimitOk then
                     (\<lparr>http_status = 429,
                       body = GenError ''Rate limit exceeded. Please try again later.''\<rparr>, s0)
                   else if \<not> truthy (e_jwt env) then
                     (\<lparr>http_status = 401, body = GenError ''No valid session''\<rparr>, s0)
                   else generate_task env requestData userId s0)))"

section \<open>Sample data\<close>

text \<open>A task of user \<open>u1\<close> with a job mapping, an empty store around them, and the
  answers of the collaborators for a request of that user on that task.\<close>

definition demo_task :: "string \<Rightarrow> task_row" where
  "demo_task st =
     \<lparr>t_id = ''t1'', t_user_id = ''u1'', t_story_description = ascii ''a rabbit'',
      t_tags = None, t_custom_tags = None, t_status = st, t_progress = None,
      t_error_message = None, t_suna_thread_id = Some ''th1'', t_suna_agent_run_id = Some ''r1'',
      t_created_at = 1000, t_updated_at = 1000, t_completed_at = None\<rparr>"

definition demo_mapping :: mapping_row where
  "demo_mapping =
     \<lparr>m_local_task_id = ''t1'', m_user_id = ''u1'', m_suna_thread_id = Some ''th1'',
      m_suna_agent_run_id = Some ''r1'', m_status = ''processing'', m_request_data = None,
      m_response_data = None, m_error_message = None, m_retry_count = 0, m_max_retries = 3,
      m_updated_at = 1000\<rparr>"

definition demo_store :: "string \<Rightarrow> mapping_row list \<Rightarrow> store" where
  "demo_store st ms =
     \<lparr>tasks = [demo_task st], mappings = ms, rate_limits = [], storybooks = [],
      storybook_pages = [], user_storybooks = []\<rparr>"

definition demo_status_env :: "suna_data fetch_outcome \<Rightarrow> status_env" where
  "demo_status_env poll =
     \<lparr>e_user = Some ''u1'', e_jwt = Some ''jwt'', e_now = 5000, e_zone = utc_zone,
      e_rl_fault = None, e_rl_write_fault = None, e_task_fault = None,
      e_task_write_fault = None, e_mapping_read_fault = None, e_mapping_write_fault = None,
      s_task_id = Some ''t1'', s_poll = poll\<rparr>"

definition demo_poll :: "string \<Rightarrow> suna_data fetch_outcome" where
  "demo_poll st = FetchOk \<lparr>sd_thread_id = None, sd_agent_run_id = None, sd_status = Some st, sd_error = None\<rparr>"

text \<open>One event frame that carries a whole story (a title and one page), as JSON text
  with escaped line breaks, and what \<open>JSON.parse\<close> makes of it.\<close>

definition demo_story :: ustring where
  "demo_story = title_marker @ ascii ''T'' @ [newline] @ [0x7B2C, 0x31, 0x9875, 0xFF1A, newline]
     @ text_marker @ ascii ''a'' @ [newline] @ image_marker @ ascii ''b''"

definition demo_story_json :: ustring where
  \<open>demo_story_json = ascii ''{"type":"message","role":"assistant","content":"''
     @ title_marker @ ascii ''T'' @ [92, 110] @ [0x7B2C, 0x31, 0x9875, 0xFF1A, 92, 110]
     @ text_marker @ ascii ''a'' @ [92, 110] @ image_marker @ ascii ''b'' @ ascii ''"}''\<close>

definition demo_parse :: json_parse where
  "demo_parse s =
     (if s = demo_story_json
      then Some \<lparr>d_type = ''message'', d_content = demo_story, d_role = ''assistant''\<rparr>
      else None)"

definition demo_chunks :: "ustring list" where
  "demo_chunks = [ascii ''data: '' @ demo_story_json @ [newline]]"

definition demo_result_env :: "ustring list option fetch_outcome \<Rightarrow> string option \<Rightarrow> result_env" where
  "demo_result_env stream pages_fault =
     \<lparr>e_user = Some ''u1'', e_jwt = Some ''jwt'', e_now = 5000, e_zone = utc_zone,
      e_rl_fault = None, e_rl_write_fault = None, e_task_fault = None,
      e_task_write_fault = None, e_mapping_read_fault = None, e_mapping_write_fault = None,
      r_task_id = Some ''t1'', r_stream = stream, r_json_parse = demo_parse,
      r_storybook_read_fault = None, r_storybook_insert_fault = None,
      r_pages_insert_fault = pages_fault, r_user_storybook_insert_fault = None\<rparr>"

definition demo_generate_env :: "suna_data fetch_outcome \<Rightarrow> generate_env" where
  "demo_generate_env init =
     \<lparr>e_user = Some ''u1'', e_jwt = Some ''jwt'', e_now = 5000, e_zone = utc_zone,
      e_rl_fault = None, e_rl_write_fault = None, e_task_fault = None,
      e_task_write_fault = None, e_mapping_read_fault = None, e_mapping_write_fault = None,
      g_request = Some \<lparr>rd_story_description = ascii ''a rabbit'', rd_tags = None,
                        rd_custom_tags = None\<rparr>,
      g_new_task_id = ''t2'', g_task_insert_fault = None, g_mapping_create_fault = None,
      g_init = init\<rparr>"

text \<open>The same story with another numeral in its page header, and the rows of the
  storybook that the story makes, in a store that already holds them.\<close>

definition demo_story_renumbered :: ustring where
  "demo_story_renumbered = title_marker @ ascii ''T'' @ [newline]
     @ [0x7B2C, 0x37, 0x33, 0x9875, newline]
     @ text_marker @ ascii ''a'' @ [newline] @ image_marker @ ascii ''b''"




section \<open>Terms of the claims\<close>

text \<open>The external poll reports a terminal status: the poll is made (there is a
  session token), it answers with success, and the status it carries is
  \<open>completed\<close> or \<open>failed\<close>. The value is that status.\<close>

definition poll_terminal :: "status_env \<Rightarrow> string option" where
  "poll_terminal env =
     (if truthy (e_jwt env) then
        (case s_poll env of
           FetchOk sunaData \<Rightarrow>
             if sd_status sunaData = Some ''completed'' then Some ''completed''
             else if sd_status sunaData = Some ''failed'' then Some ''failed''
             else None
         | _ \<Rightarrow> None)
      else None)"

text \<open>Initiating the external job fails: the request throws, or the service answers
  with a status that is not a success. The value is the text of the error that the
  handler then catches.\<close>

definition init_error_text :: "suna_data fetch_outcome \<Rightarrow> string option" where
  "init_error_text outcome =
     (case outcome of
        FetchThrows msg \<Rightarrow> Some msg
      | FetchNotOk code \<Rightarrow> Some (''Suna AI API error: '' @ decimal code)
      | FetchOk sunaData \<Rightarrow> None)"

text \<open>The text accumulated from the result stream, when the request for the stream
  succeeds (an absent body reads as the empty text).\<close>

definition stream_text :: "result_env \<Rightarrow> ustring option" where
  "stream_text env =
     (case r_stream env of
        FetchOk stream_body \<Rightarrow>
          Some (case stream_body of
                  None \<Rightarrow> []
                | Some chunks \<Rightarrow> fst (read_stream (r_json_parse env) chunks))
      | _ \<Rightarrow> None)"

text \<open>A result fetch that gets as far as the result stream: it names a task, is
  authenticated and within the rate limit, the task is found for the user and is
  completed, its mapping is found and has a run id, and there is a session token.\<close>

definition result_reaches_stream ::
  "result_env \<Rightarrow> store \<Rightarrow> string \<Rightarrow> string \<Rightarrow> task_row \<Rightarrow> bool" where
  "result_reaches_stream env s taskId userId task =
     (r_task_id env = Some taskId \<and> taskId \<noteq> [] \<and> e_user env = Some userId \<and>
      fst (checkRateLimit (e_zone env) (e_rl_fault env) (e_rl_write_fault env) (e_now env) (e_now env) userId
             ''/api/suna/result'' 100 (rate_limits s)) \<and>
      find_task (e_task_fault env) taskId userId (tasks s) = Row task \<and>
      t_status task = ''completed'' \<and>
      (case getSunaTaskMapping (e_mapping_read_fault env) taskId (mappings s) of
         Inr (Some sunaMapping) \<Rightarrow> truthy (m_suna_agent_run_id sunaMapping)
       | _ \<Rightarrow> False) \<and>
      truthy (e_jwt env))"

text \<open>The storybooks of a task; the storybook row that the handler builds for a parsed
  story; the answer of the handler when the inner \<open>try\<close> block throws.\<close>

definition task_storybooks :: "string \<Rightarrow> store \<Rightarrow> storybook_row list" where
  "task_storybooks taskId s = filter (\<lambda>b. sb_generation_task_id b = taskId) (storybooks s)"

definition new_storybook :: "result_env \<Rightarrow> string \<Rightarrow> task_row \<Rightarrow> story_data \<Rightarrow> store \<Rightarrow> storybook_row" where
  "new_storybook env taskId task storyData s =
     \<lparr>sb_id = fresh_id (map sb_id (storybooks s)), sb_title = title storyData,
      sb_description = t_story_description task,
      sb_generation_task_id = taskId, sb_created_at = e_now env\<rparr>"

definition fetch_failed :: "string \<Rightarrow> result_body response" where
  "fetch_failed taskId =
     \<lparr>http_status = 500,
      body = ResultFetchFailed taskId ''error'' ''Failed to fetch result from Suna AI''\<rparr>"

section \<open>Properties of the content parser\<close>

lemma push_current_filter:
  "push_current cur (filter page_complete ps) = filter page_complete (close_any cur ps)"
  by (simp add: push_current_def close_any_def page_complete_def split: option.splits)

lemma parse_track_step:
  assumes "ps_title st = ps_title st'" "ps_current st = ps_current st'"
    "ps_pages st = filter page_complete (ps_pages st')"
  shows "ps_title (parse_line st l) = ps_title (track_line st' l) \<and>
         ps_current (parse_line st l) = ps_current (track_line st' l) \<and>
         ps_pages (parse_line st l) = filter page_complete (ps_pages (track_line st' l))"
  using assms
  by (simp add: parse_line_def track_line_def push_current_filter split: option.splits)

lemma parse_track_fold:
  assumes "ps_title st = ps_title st'" "ps_current st = ps_current st'"
    "ps_pages st = filter page_complete (ps_pages st')"
  shows "ps_title (foldl parse_line st ls) = ps_title (foldl track_line st' ls) \<and>
         ps_current (foldl parse_line st ls) = ps_current (foldl track_line st' ls) \<and>
         ps_pages (foldl parse_line st ls) = filter page_complete (ps_pages (foldl track_line st' ls))"
  using assms
proof (induction ls arbitrary: st st')
  case Nil
  then show ?case by simp
next
  case (Cons l ls)
  from parse_track_step[OF Cons.prems, of l]
  show ?case using Cons.IH[of "parse_line st l" "track_line st' l"] by simp
qed

lemma pages_filter_closed:
  "pages (parse_lines ls) = filter page_complete (closed_pages ls)"
proof -
  have "ps_pages parse_init = filter page_complete (ps_pages parse_init)"
    by (simp add: parse_init_def)
  from parse_track_fold[OF refl refl this, of ls]
  show ?thesis
    by (simp add: parse_lines_def closed_pages_def Let_def push_current_filter)
qed

text \<open>
  C5. For every input text the pages of the parsed document are exactly those closed
  pages (closed by the next page header or by the end of the input) whose text and
  image are both non-empty when they are closed, in order; a closed page with an
  empty field is dropped.
\<close>

theorem parser_keeps_complete_pages_only:
  "pages (parseStoryContent content) =
     filter page_complete (closed_pages (content_lines content))"
  by (simp add: parseStoryContent_def pages_filter_closed)

text \<open>A page block with a text line and no image line, followed by a title line: one
  page is closed, with an empty image, and the document has no page.\<close>

theorem parser_keeps_complete_pages_only_witness:
  "closed_pages (content_lines ([0x7B2C, 0x31, 0x9875, 0xFF1A, 10] @ text_marker @
       ascii ''hello'' @ [10] @ title_marker @ ascii ''Next''))
     = [\<lparr>ptext = ascii ''hello'', pimage = []\<rparr>] \<and>
   pages (parseStoryContent ([0x7B2C, 0x31, 0x9875, 0xFF1A, 10] @ text_marker @
       ascii ''hello'' @ [10] @ title_marker @ ascii ''Next'')) = []"
  using parser_keeps_complete_pages_only
    [of "[0x7B2C, 0x31, 0x9875, 0xFF1A, 10] @ text_marker @ ascii ''hello'' @ [10] @
         title_marker @ ascii ''Next''"]
  by (simp add: content_lines_def parse_line_def parse_init_def push_current_def
      split_on_def newline_def trim_def is_ws_def is_digit_def is_page_header_def
      starts_with_def title_marker_def text_marker_def image_marker_def ascii_def
      closed_pages_def track_line_def close_any_def page_complete_def)

lemma header_not_title: "is_page_header l \<Longrightarrow> \<not> starts_with title_marker l"
  by (auto simp: is_page_header_def starts_with_def title_marker_def split: list.splits)

lemma parse_line_header:
  "is_page_header a \<Longrightarrow> is_page_header b \<Longrightarrow> parse_line st a = parse_line st b"
  by (simp add: parse_line_def header_not_title)

lemma foldl_parse_line_headers:
  "list_all2 (\<lambda>a b. a = b \<or> (is_page_header a \<and> is_page_header b)) ls ls' \<Longrightarrow>
   foldl parse_line st ls = foldl parse_line st ls'"
proof (induction ls ls' arbitrary: st rule: list_all2_induct)
  case Nil
  then show ?case by simp
next
  case (Cons a ls b ls')
  have "parse_line st a = parse_line st b"
    using Cons.hyps(1) parse_line_header by blast
  then show ?case using Cons.IH by simp
qed

lemma map_snd_enumerate_fun: "map (\<lambda>x. f (snd x)) (enumerate n ps) = map f ps"
  by (induction ps arbitrary: n) simp_all

lemma map_Suc_fst_enumerate:
  "map (\<lambda>x. Suc (fst x)) (enumerate n ps) = [Suc n..<Suc (n + length ps)]"
  by (induction ps arbitrary: n) (simp_all add: upt_conv_Cons del: upt_Suc)

lemma page_rows_numbers: "map pg_page_number (page_rows sbid now ps) = [1..<Suc (length ps)]"
  by (simp add: page_rows_def case_prod_unfold comp_def map_Suc_fst_enumerate)

lemma page_rows_content: "map pg_content (page_rows sbid now ps) = map ptext ps"
  by (simp add: page_rows_def case_prod_unfold comp_def map_snd_enumerate_fun)

lemma page_rows_image: "map pg_image_description (page_rows sbid now ps) = map pimage ps"
  by (simp add: page_rows_def case_prod_unfold comp_def map_snd_enumerate_fun)

section \<open>Properties of the stream reconciler\<close>

lemma split_from_append:
  "split_from d cur (a @ d # b) = split_from d cur a @ split_from d [] b"
  by (induction a arbitrary: cur) auto

lemma process_line_empty: "process_line jp acc [] = acc"
  by (simp add: process_line_def starts_with_def ascii_def)

lemma process_chunk_Nil: "process_chunk jp acc [] = acc"
  by (simp add: process_chunk_def split_on_def process_line_empty)

lemma process_chunk_newline:
  "process_chunk jp acc (a @ newline # b) = process_chunk jp (process_chunk jp acc a) b"
  by (simp add: process_chunk_def split_on_def split_from_append)

lemma process_chunk_complete:
  assumes "c = [] \<or> last c = newline"
  shows "process_chunk jp acc (c @ rest) = process_chunk jp (process_chunk jp acc c) rest"
proof (cases "c = []")
  case True
  then show ?thesis by (simp add: process_chunk_Nil)
next
  case False
  with assms have c: "c = butlast c @ [newline]"
    by (metis append_butlast_last_id)
  have "process_chunk jp acc (c @ rest) = process_chunk jp acc (butlast c @ newline # rest)"
    by (subst c) simp
  also have "\<dots> = process_chunk jp (process_chunk jp acc (butlast c)) rest"
    by (rule process_chunk_newline)
  also have "process_chunk jp acc (butlast c) = process_chunk jp acc c"
  proof -
    have "process_chunk jp acc c = process_chunk jp acc (butlast c @ newline # [])"
      by (subst c) simp
    also have "\<dots> = process_chunk jp (process_chunk jp acc (butlast c)) []"
      by (rule process_chunk_newline)
    finally show ?thesis by (simp add: process_chunk_Nil)
  qed
  finally show ?thesis .
qed

lemma foldl_process_chunk_concat:
  assumes "\<forall>c \<in> set (butlast chunks). c = [] \<or> last c = newline"
  shows "foldl (process_chunk jp) acc chunks = process_chunk jp acc (concat chunks)"
  using assms
proof (induction chunks arbitrary: acc)
  case Nil
  then show ?case by (simp add: process_chunk_Nil)
next
  case (Cons c cs)
  show ?case
  proof (cases "cs = []")
    case True
    then show ?thesis by simp
  next
    case False
    with Cons.prems have c: "c = [] \<or> last c = newline"
      and rest: "\<forall>c \<in> set (butlast cs). c = [] \<or> last c = newline"
      by auto
    show ?thesis
      using Cons.IH[OF rest, of "process_chunk jp acc c"]
        process_chunk_complete[OF c, of jp acc "concat cs"]
      by simp
  qed
qed

text \<open>
  C3, as the claim states it, fails: the read loop decodes every read on its own,
  splits the decoded text of every read into lines on its own and carries nothing
  from one read to the next. The frame \<open>sample_line\<close> read as one chunk
  contributes its content; read as two chunks, cut inside the JSON text, it
  contributes nothing, although the two chunk texts concatenate to the same text.
\<close>

theorem read_stream_split_frame_lost:
  \<open>ascii ''data: {"type":"message","role":"assistan'' @
     (ascii ''t","content":"Hi"}'' @ [newline]) = sample_line \<and>
   fst (read_stream sample_parse [sample_line]) = ascii ''Hi'' \<and>
   fst (read_stream sample_parse
          [ascii ''data: {"type":"message","role":"assistan'',
           ascii ''t","content":"Hi"}'' @ [newline]]) = []\<close>
  by (simp add: sample_line_def sample_payload_def sample_parse_def read_stream_def
      process_chunk_def process_line_def split_on_def newline_def starts_with_def ascii_def)

text \<open>
  C3, amended. The chunks are the decoded texts of the successive reads. When every
  chunk text but the last is empty or ends with a newline, the loop accumulates from
  the chunks the same text and the same message list as from their concatenation
  read as a single chunk, whatever the decoder of the payloads is. The statement
  says nothing of a sequence of reads in which a read ends inside a line.
\<close>

theorem read_stream_chunks_at_line_ends:
  assumes "\<forall>c \<in> set (butlast chunks). c = [] \<or> last c = newline"
  shows "read_stream jp chunks = read_stream jp [concat chunks]"
  using foldl_process_chunk_concat[OF assms] by (simp add: read_stream_def)

theorem read_stream_chunks_at_line_ends_witness:
  "last sample_line = newline \<and>
   read_stream sample_parse [sample_line, sample_line] =
     read_stream sample_parse [concat [sample_line, sample_line]] \<and>
   fst (read_stream sample_parse [sample_line, sample_line]) = ascii ''HiHi''"
proof -
  have h: "\<forall>c \<in> set (butlast [sample_line, sample_line]). c = [] \<or> last c = newline"
    by (simp add: sample_line_def)
  have "fst (read_stream sample_parse [sample_line, sample_line]) = ascii ''HiHi''"
    by (simp add: sample_line_def sample_payload_def sample_parse_def read_stream_def
        process_chunk_def process_line_def split_on_def newline_def starts_with_def ascii_def)
  moreover have "last sample_line = newline"
    by (simp add: sample_line_def)
  ultimately show ?thesis
    using read_stream_chunks_at_line_ends[OF h, of sample_parse] by blast
qed

section \<open>Properties of the rate limiter\<close>

text \<open>
  C9. When the lookup of the current window fails with a storage error whose code is
  not \<open>PGRST116\<close> (no row found), the request is allowed and the table is left as it
  was: no counter is incremented and no window row is created.
\<close>

theorem rate_limit_fails_open:
  assumes "fault = Some code" and "code \<noteq> ''PGRST116''"
  shows "checkRateLimit zone fault wfault now wnow userId endpoint maxRequests tbl = (True, tbl)"
  using assms by (simp add: checkRateLimit_def query_single_def)

theorem rate_limit_fails_open_witness:
  "checkRateLimit utc_zone (Some ''57014'') None 5000 5001 ''u1'' ''/api/suna/status'' 200 [] =
     (True, [])"
  using rate_limit_fails_open[of "Some ''57014''" "''57014''" utc_zone None 5000 5001 "''u1''"
      "''/api/suna/status''" 200 "[]"]
  by simp

text \<open>The window start is the instant that the local clock showed sixty minutes
  earlier: one hour back when the offset of the zone is the same at both ends, as it
  is in the zone of universal time.\<close>

lemma window_start_local:
  "window_start zone now = utc_time zone (local_time zone now - 60 * 60000)"
  by (simp add: window_start_def setMinutes_def getMinutes_def algebra_simps)

lemma window_start_fixed_offset:
  assumes "\<And>t. tz_at_instant zone t = k" and "\<And>t. tz_at_local zone t = k"
  shows "window_start zone now = now - 60 * 60000"
  using assms by (simp add: window_start_local utc_time_def local_time_def)

lemma window_start_utc: "window_start utc_zone now = now - 60 * 60000"
  by (rule window_start_fixed_offset[of _ 0]) (simp_all add: utc_zone_def)

text \<open>Where the local clock is put forward by an hour at the instant \<open>T\<close>, the window
  start computed at \<open>T\<close> is \<open>T\<close> itself: the local time of an hour earlier falls
  into the hour that the clock skips and is read with the earlier offset.\<close>

lemma window_start_clock_forward: "window_start (clock_forward_zone T) T = T"
  by (simp add: window_start_local utc_time_def local_time_def clock_forward_zone_def)

lemmas rl_eval = checkRateLimit_def query_single_def single_def in_window_def rl_insert_def
  rl_update_def fresh_id_def window_start_utc

text \<open>In such a zone a request at \<open>T\<close> does not see a window written thirty minutes
  earlier, whatever its count: it is allowed and writes a second window.\<close>

lemma rate_limit_clock_forward_admits:
  "checkRateLimit (clock_forward_zone 7200000) None None 7200000 7200001 ''u1''
     ''/api/suna/status'' 1
     [\<lparr>rl_id = 1, rl_user_id = ''u1'', rl_endpoint = ''/api/suna/status'',
       rl_request_count = 1, rl_window_start = 5400000, rl_max_requests = 1,
       rl_updated_at = 5400000\<rparr>] =
     (True,
      [\<lparr>rl_id = 1, rl_user_id = ''u1'', rl_endpoint = ''/api/suna/status'',
        rl_request_count = 1, rl_window_start = 5400000, rl_max_requests = 1,
        rl_updated_at = 5400000\<rparr>,
       \<lparr>rl_id = 2, rl_user_id = ''u1'', rl_endpoint = ''/api/suna/status'',
        rl_request_count = 1, rl_window_start = 7200001, rl_max_requests = 1,
        rl_updated_at = 7200001\<rparr>])"
  using window_start_clock_forward[of 7200000]
  by (simp add: checkRateLimit_def query_single_def single_def in_window_def rl_insert_def
      fresh_id_def)










section \<open>Properties of the status check\<close>

lemmas demo_defs = demo_task_def demo_mapping_def demo_store_def demo_status_env_def
  demo_poll_def demo_result_env_def

lemmas status_eval = status_GET_def status_task_def status_poll_def status_reply_def
  find_task_def getSunaTaskMapping_def updateSunaTaskStatus_def apply_patch_def set_if_def
  task_write_through_def truthy_def rl_eval demo_defs

lemma status_GET_reach:
  assumes "s_task_id env = Some taskId" "taskId \<noteq> []" "e_user env = Some userId"
    and "checkRateLimit (e_zone env) (e_rl_fault env) (e_rl_write_fault env) (e_now env) (e_now env) userId ''/api/suna/status'' 200 (rate_limits s) = (True, rl)"
  shows "status_GET env s = status_task env taskId userId (s\<lparr>rate_limits := rl\<rparr>)"
  using assms by (simp add: status_GET_def truthy_def)

lemma result_GET_reach:
  assumes "r_task_id env = Some taskId" "taskId \<noteq> []" "e_user env = Some userId"
    and "checkRateLimit (e_zone env) (e_rl_fault env) (e_rl_write_fault env) (e_now env) (e_now env) userId ''/api/suna/result'' 100 (rate_limits s) = (True, rl)"
  shows "result_GET env s = result_task env taskId userId (s\<lparr>rate_limits := rl\<rparr>)"
  using assms by (simp add: result_GET_def truthy_def)

lemma no_task_Failed:
  assumes "\<not> list_ex (\<lambda>t. t_id t = taskId \<and> t_user_id t = userId) tbl"
  shows "\<exists>code. find_task fault taskId userId tbl = Failed code"
proof -
  from assms have "filter (\<lambda>t. t_id t = taskId \<and> t_user_id t = userId) tbl = []"
    by (simp add: list_ex_iff filter_empty_conv)
  then show ?thesis
    by (simp add: find_task_def query_single_def single_def split: option.splits)
qed

lemma no_mapping_None:
  assumes "\<not> list_ex (\<lambda>r. m_local_task_id r = taskId) tbl"
  shows "getSunaTaskMapping None taskId tbl = Inr None"
proof -
  from assms have "filter (\<lambda>r. m_local_task_id r = taskId) tbl = []"
    by (simp add: list_ex_iff filter_empty_conv)
  then show ?thesis
    by (simp add: getSunaTaskMapping_def query_single_def single_def)
qed

lemma find_task_RowD:
  "find_task fault taskId userId tbl = Row task \<Longrightarrow>
   fault = None \<and> filter (\<lambda>t. t_id t = taskId \<and> t_user_id t = userId) tbl = [task]"
  by (auto simp: find_task_def query_single_def single_def split: option.splits list.splits)

lemma getSunaTaskMapping_SomeD:
  "getSunaTaskMapping fault taskId tbl = Inr (Some m) \<Longrightarrow>
   fault = None \<and> filter (\<lambda>r. m_local_task_id r = taskId) tbl = [m]"
  by (auto simp: getSunaTaskMapping_def query_single_def single_def
      split: option.splits list.splits if_splits)

lemma filter_singleD:
  assumes "filter P xs = [x]"
  shows "P x \<and> x \<in> set xs"
proof -
  have "x \<in> set (filter P xs)" using assms by simp
  then show ?thesis by simp
qed

lemma filter_map_same:
  assumes "\<And>x. P (f x) = P x"
  shows "filter P (map f xs) = map f (filter P xs)"
  using assms by (induction xs) simp_all

lemma find_task_written:
  assumes "filter (\<lambda>t. t_id t = taskId \<and> t_user_id t = userId) tbl = [task]"
  shows "find_task None taskId userId (map (task_write_through taskId st now err) tbl) =
           Row (task_write_through taskId st now err task)"
proof -
  have "filter (\<lambda>t. t_id t = taskId \<and> t_user_id t = userId)
          (map (task_write_through taskId st now err) tbl) =
        map (task_write_through taskId st now err)
          (filter (\<lambda>t. t_id t = taskId \<and> t_user_id t = userId) tbl)"
    by (rule filter_map_same) (simp add: task_write_through_def)
  then show ?thesis using assms
    by (simp add: find_task_def query_single_def single_def)
qed

lemma mapping_patched:
  assumes "filter (\<lambda>r. m_local_task_id r = taskId) tbl = [m]"
  shows "getSunaTaskMapping None taskId
           (map (\<lambda>r. if m_local_task_id r = taskId then apply_patch now p r else r) tbl) =
         Inr (Some (apply_patch now p m))"
proof -
  have m: "m_local_task_id m = taskId"
    using filter_singleD[OF assms] by simp
  have "filter (\<lambda>r. m_local_task_id r = taskId)
          (map (\<lambda>r. if m_local_task_id r = taskId then apply_patch now p r else r) tbl) =
        map (\<lambda>r. if m_local_task_id r = taskId then apply_patch now p r else r)
          (filter (\<lambda>r. m_local_task_id r = taskId) tbl)"
    by (rule filter_map_same) (simp add: apply_patch_def)
  then show ?thesis using assms m
    by (simp add: getSunaTaskMapping_def query_single_def single_def)
qed

text \<open>
  C4, as the claim states it, fails when storage rejects the update of the mapping:
  the task and the mapping are written by two separate updates, the second of which
  throws inside the \<open>try\<close> block, where the error is caught and logged. Here the
  poll reports \<open>completed\<close> and the update of the mapping is rejected: the request
  leaves the task \<open>completed\<close> in the store and the mapping \<open>processing\<close>, and the
  response reports \<open>processing\<close>.
\<close>

theorem status_check_rejected_mapping_update:
  "map t_status (tasks (snd (status_GET
      ((demo_status_env (demo_poll ''completed''))\<lparr>e_mapping_write_fault := Some ''rejected''\<rparr>)
      (demo_store ''processing'' [demo_mapping])))) = [''completed''] \<and>
   map m_status (mappings (snd (status_GET
      ((demo_status_env (demo_poll ''completed''))\<lparr>e_mapping_write_fault := Some ''rejected''\<rparr>)
      (demo_store ''processing'' [demo_mapping])))) = [''processing''] \<and>
   fst (status_GET
      ((demo_status_env (demo_poll ''completed''))\<lparr>e_mapping_write_fault := Some ''rejected''\<rparr>)
      (demo_store ''processing'' [demo_mapping])) =
     status_reply ''t1'' (demo_task ''processing'') demo_mapping \<and>
   t_status (demo_task ''processing'') = ''processing''"
  by (simp add: status_eval update_tasks_def Let_def)

text \<open>
  C4, amended. A status check passes authentication and rate limiting and finds a task
  in \<open>processing\<close> whose mapping has a run id. When the poll reports a terminal
  status, the task and the mapping are written by two separate updates before the
  response: the task read back from the store carries the terminal status when
  storage accepts its update, and the task table is as it was when storage rejects it
  (the handler does not notice); the mapping read back and the response carry the
  terminal status when storage accepts the update of the mapping, and when storage
  rejects it the mapping table is as it was and the response is the 200 answer with
  the earlier local state. When the poll reports no terminal status (the job is
  running, the poll answers without success or throws, or no poll is made), the task
  and mapping tables are left as they were and the response is the 200 answer with
  the local state, \<open>processing\<close>.
\<close>

theorem status_check_writes_through_iff_terminal:
  assumes "s_task_id env = Some taskId" and "taskId \<noteq> []" and "e_user env = Some userId"
    and "fst (checkRateLimit (e_zone env) (e_rl_fault env) (e_rl_write_fault env) (e_now env) (e_now env) userId ''/api/suna/status'' 200 (rate_limits s))"
    and "find_task (e_task_fault env) taskId userId (tasks s) = Row task"
    and "t_status task = ''processing''"
    and "getSunaTaskMapping (e_mapping_read_fault env) taskId (mappings s) = Inr (Some m)"
    and "truthy (m_suna_agent_run_id m)"
    and "status_GET env s = (resp, s')"
  shows "case poll_terminal env of
           Some newStatus \<Rightarrow>
             (case e_task_write_fault env of
                None \<Rightarrow>
                  (\<exists>t'. find_task None taskId userId (tasks s') = Row t' \<and>
                        t_status t' = newStatus)
              | Some msg \<Rightarrow> tasks s' = tasks s) \<and>
             (case e_mapping_write_fault env of
                None \<Rightarrow>
                  (\<exists>m' info.
                     getSunaTaskMapping None taskId (mappings s') = Inr (Some m') \<and>
                     m_status m' = newStatus \<and>
                     resp = \<lparr>http_status = 200, body = StatusInfo info\<rparr> \<and>
                     si_status info = newStatus)
              | Some msg \<Rightarrow>
                  mappings s' = mappings s \<and> resp = status_reply taskId task m \<and>
                  (\<exists>info. resp = \<lparr>http_status = 200, body = StatusInfo info\<rparr> \<and>
                          si_status info = ''processing''))
         | None \<Rightarrow>
             tasks s' = tasks s \<and> mappings s' = mappings s \<and>
             resp = status_reply taskId task m \<and>
             (\<exists>info. resp = \<lparr>http_status = 200, body = StatusInfo info\<rparr> \<and>
                     si_status info = ''processing'')"
proof -
  obtain rl where rl: "checkRateLimit (e_zone env) (e_rl_fault env) (e_rl_write_fault env) (e_now env) (e_now env) userId ''/api/suna/status'' 200 (rate_limits s) = (True, rl)"
    using assms(4) by (cases "checkRateLimit (e_zone env) (e_rl_fault env) (e_rl_write_fault env) (e_now env) (e_now env) userId ''/api/suna/status'' 200 (rate_limits s)") simp
  let ?s0 = "s\<lparr>rate_limits := rl\<rparr>"
  from find_task_RowD[OF assms(5)] have tf: "filter (\<lambda>t. t_id t = taskId \<and> t_user_id t = userId) (tasks s) = [task]"
    by simp
  from filter_singleD[OF tf] have tid: "t_id task = taskId"
    by simp
  from getSunaTaskMapping_SomeD[OF assms(7)] have mf: "filter (\<lambda>r. m_local_task_id r = taskId) (mappings s) = [m]"
    by simp
  have run: "status_GET env s =
      (let (task1, s1) = status_poll env taskId task ?s0 in (status_reply taskId task1 m, s1))"
    unfolding status_GET_reach[OF assms(1,2,3) rl]
    using assms(5,6,7,8) by (simp add: status_task_def)
  show ?thesis
  proof (cases "poll_terminal env")
    case None
    have "status_poll env taskId task ?s0 = (task, ?s0)"
    proof (cases "truthy (e_jwt env)")
      case False
      then show ?thesis by (simp add: status_poll_def)
    next
      case True
      show ?thesis
      proof (cases "s_poll env")
        case (FetchOk d)
        with None True have "sd_status d \<noteq> Some ''completed''" "sd_status d \<noteq> Some ''failed''"
          by (simp_all add: poll_terminal_def split: if_splits)
        with FetchOk True show ?thesis by (simp add: status_poll_def)
      qed (simp_all add: status_poll_def True)
    qed
    with run assms(9) have "resp = status_reply taskId task m" "s' = ?s0"
      by simp_all
    with None assms(6) show ?thesis by (simp add: status_reply_def)
  next
    case (Some newStatus)
    then have j: "truthy (e_jwt env)"
      by (simp add: poll_terminal_def split: if_splits)
    obtain d where pd: "s_poll env = FetchOk d"
      using Some j by (cases "s_poll env") (simp_all add: poll_terminal_def)
    have st: "(sd_status d = Some ''completed'' \<and> newStatus = ''completed'') \<or>
              (sd_status d \<noteq> Some ''completed'' \<and> sd_status d = Some ''failed'' \<and> newStatus = ''failed'')"
      using Some j pd by (cases "sd_status d = Some ''completed''"; cases "sd_status d = Some ''failed''")
        (simp_all add: poll_terminal_def)
    have d: "truthy (e_jwt env)" "s_poll env = FetchOk d"
      "sd_status d = Some ''completed'' \<or> sd_status d = Some ''failed''"
      "newStatus = (if sd_status d = Some ''completed'' then ''completed'' else ''failed'')"
      using j pd st by auto
    let ?p = "\<lparr>up_suna_thread_id = None, up_suna_agent_run_id = None,
                up_status = Some newStatus, up_response_data = Some d,
                up_error_message = sd_error d\<rparr>"
    let ?f = "task_write_through taskId newStatus (e_now env) (sd_error d)"
    let ?ts = "update_tasks (e_task_write_fault env) ?f (tasks s)"
    let ?ms = "map (\<lambda>r. if m_local_task_id r = taskId then apply_patch (e_now env) ?p r else r) (mappings s)"
    let ?task1 = "task\<lparr>t_status := newStatus, t_completed_at := Some (e_now env),
                      t_error_message := (case sd_error d of None \<Rightarrow> None | Some v \<Rightarrow> v)\<rparr>"
    have poll: "status_poll env taskId task ?s0 =
        (case e_mapping_write_fault env of
           None \<Rightarrow> (?task1, ?s0\<lparr>tasks := ?ts, mappings := ?ms\<rparr>)
         | Some msg \<Rightarrow> (task, ?s0\<lparr>tasks := ?ts\<rparr>))"
      using d by (simp add: status_poll_def updateSunaTaskStatus_def Let_def split: option.splits)
    have tasks': "tasks s' = ?ts"
      using run assms(9) poll by (simp split: option.splits)
    have tpart: "case e_task_write_fault env of
                None \<Rightarrow>
                  (\<exists>t'. find_task None taskId userId (tasks s') = Row t' \<and>
                        t_status t' = newStatus)
              | Some msg \<Rightarrow> tasks s' = tasks s"
    proof (cases "e_task_write_fault env")
      case None
      then have "tasks s' = map ?f (tasks s)"
        using tasks' by (simp add: update_tasks_def)
      then have "find_task None taskId userId (tasks s') = Row (?f task)"
        using find_task_written[OF tf] by simp
      moreover have "t_status (?f task) = newStatus"
        using tid by (simp add: task_write_through_def)
      ultimately show ?thesis using None by simp
    next
      case (Some msg)
      then show ?thesis using tasks' by (simp add: update_tasks_def)
    qed
    have mpart: "case e_mapping_write_fault env of
                None \<Rightarrow>
                  (\<exists>m' info.
                     getSunaTaskMapping None taskId (mappings s') = Inr (Some m') \<and>
                     m_status m' = newStatus \<and>
                     resp = \<lparr>http_status = 200, body = StatusInfo info\<rparr> \<and>
                     si_status info = newStatus)
              | Some msg \<Rightarrow>
                  mappings s' = mappings s \<and> resp = status_reply taskId task m \<and>
                  (\<exists>info. resp = \<lparr>http_status = 200, body = StatusInfo info\<rparr> \<and>
                          si_status info = ''processing'')"
    proof (cases "e_mapping_write_fault env")
      case None
      with run assms(9) poll have r: "resp = status_reply taskId ?task1 m"
        and ms: "mappings s' = ?ms"
        by simp_all
      have 2: "getSunaTaskMapping None taskId (mappings s') = Inr (Some (apply_patch (e_now env) ?p m))"
        using mapping_patched[OF mf] ms by simp
      have 4: "m_status (apply_patch (e_now env) ?p m) = newStatus"
        by (simp add: apply_patch_def set_if_def)
      from 2 4 r None show ?thesis
        by (simp add: status_reply_def)
    next
      case (Some msg)
      with run assms(9) poll have "resp = status_reply taskId task m" "mappings s' = mappings s"
        by simp_all
      with Some assms(6) show ?thesis by (simp add: status_reply_def)
    qed
    from tpart mpart Some show ?thesis by simp
  qed
qed

theorem status_check_writes_through_iff_terminal_witness:
  "poll_terminal (demo_status_env (demo_poll ''completed'')) = Some ''completed'' \<and>
   (\<exists>t'. find_task None ''t1'' ''u1''
        (tasks (snd (status_GET (demo_status_env (demo_poll ''completed''))
                       (demo_store ''processing'' [demo_mapping])))) = Row t' \<and>
      t_status t' = ''completed'') \<and>
   (\<exists>m' info.
      getSunaTaskMapping None ''t1''
        (mappings (snd (status_GET (demo_status_env (demo_poll ''completed''))
                       (demo_store ''processing'' [demo_mapping])))) = Inr (Some m') \<and>
      m_status m' = ''completed'' \<and>
      fst (status_GET (demo_status_env (demo_poll ''completed''))
             (demo_store ''processing'' [demo_mapping])) =
        \<lparr>http_status = 200, body = StatusInfo info\<rparr> \<and>
      si_status info = ''completed'') \<and>
   poll_terminal (demo_status_env (demo_poll ''running'')) = None \<and>
   tasks (snd (status_GET (demo_status_env (demo_poll ''running''))
                 (demo_store ''processing'' [demo_mapping]))) = [demo_task ''processing''] \<and>
   mappings (snd (status_GET (demo_status_env (demo_poll ''running''))
                 (demo_store ''processing'' [demo_mapping]))) = [demo_mapping]"
proof -
  let ?S = "demo_store ''processing'' [demo_mapping]"
  have pre: "s_task_id (demo_status_env p) = Some ''t1''" "''t1'' \<noteq> []"
    "e_user (demo_status_env p) = Some ''u1''"
    "fst (checkRateLimit (e_zone (demo_status_env p)) (e_rl_fault (demo_status_env p))
       (e_rl_write_fault (demo_status_env p)) (e_now (demo_status_env p))
       (e_now (demo_status_env p)) ''u1'' ''/api/suna/status'' 200 (rate_limits ?S))"
    "find_task (e_task_fault (demo_status_env p)) ''t1'' ''u1'' (tasks ?S) = Row (demo_task ''processing'')"
    "t_status (demo_task ''processing'') = ''processing''"
    "getSunaTaskMapping (e_mapping_read_fault (demo_status_env p)) ''t1'' (mappings ?S) = Inr (Some demo_mapping)"
    "truthy (m_suna_agent_run_id demo_mapping)" for p
    by (simp_all add: demo_defs rl_eval find_task_def getSunaTaskMapping_def truthy_def)
  have faults: "e_task_write_fault (demo_status_env p) = None"
    "e_mapping_write_fault (demo_status_env p) = None" for p
    by (simp_all add: demo_defs)
  have run: "status_GET (demo_status_env p) ?S =
      (fst (status_GET (demo_status_env p) ?S), snd (status_GET (demo_status_env p) ?S))" for p
    by simp
  have t1: "poll_terminal (demo_status_env (demo_poll ''completed'')) = Some ''completed''"
    by (simp add: poll_terminal_def demo_defs truthy_def)
  have t2: "poll_terminal (demo_status_env (demo_poll ''running'')) = None"
    by (simp add: poll_terminal_def demo_defs truthy_def)
  from status_check_writes_through_iff_terminal[OF pre run, of "demo_poll ''completed''"]
    status_check_writes_through_iff_terminal[OF pre run, of "demo_poll ''running''"]
  show ?thesis unfolding t1 t2 faults by (simp add: demo_store_def)
qed

section \<open>Status codes for a missing task or mapping\<close>

text \<open>
  C7, as the claim states it, fails for the status check: when the task exists and its
  job mapping is absent, the status route answers 200, with the status of the task and
  the error text in the body.
\<close>

theorem status_check_missing_mapping_is_200:
  "fst (status_GET (demo_status_env (FetchNotOk 500)) (demo_store ''processing'' [])) =
     \<lparr>http_status = 200, body = StatusNoMapping ''t1'' ''processing'' ''Task mapping not found''\<rparr>"
  by (simp add: status_eval)

text \<open>
  C7, amended. Of a status check and a result fetch that pass authentication and rate
  limiting: when the task does not exist for the calling user, both answer 404; when
  the task is completed and its job mapping is absent, the result fetch answers 404;
  when the task exists and its job mapping is absent, the status check answers 200
  with the status of the task and the error \<open>Task mapping not found\<close>.
\<close>

theorem missing_task_or_mapping_status_codes:
  assumes "s_task_id senv = Some taskId" and "r_task_id renv = Some taskId" and "taskId \<noteq> []"
    and "e_user senv = Some userId" and "e_user renv = Some userId"
    and "fst (checkRateLimit (e_zone senv) (e_rl_fault senv) (e_rl_write_fault senv) (e_now senv) (e_now senv) userId ''/api/suna/status'' 200 (rate_limits s))"
    and "fst (checkRateLimit (e_zone renv) (e_rl_fault renv) (e_rl_write_fault renv) (e_now renv) (e_now renv) userId ''/api/suna/result'' 100 (rate_limits s))"
  shows "(\<not> list_ex (\<lambda>t. t_id t = taskId \<and> t_user_id t = userId) (tasks s) \<longrightarrow>
            http_status (fst (status_GET senv s)) = 404 \<and>
            http_status (fst (result_GET renv s)) = 404) \<and>
         (find_task (e_task_fault renv) taskId userId (tasks s) = Row task \<and>
          t_status task = ''completed'' \<and> e_mapping_read_fault renv = None \<and>
          \<not> list_ex (\<lambda>r. m_local_task_id r = taskId) (mappings s) \<longrightarrow>
            http_status (fst (result_GET renv s)) = 404) \<and>
         (find_task (e_task_fault senv) taskId userId (tasks s) = Row task \<and>
          e_mapping_read_fault senv = None \<and>
          \<not> list_ex (\<lambda>r. m_local_task_id r = taskId) (mappings s) \<longrightarrow>
            fst (status_GET senv s) =
              \<lparr>http_status = 200,
               body = StatusNoMapping taskId (t_status task) ''Task mapping not found''\<rparr>)"
proof -
  obtain rls where rls: "checkRateLimit (e_zone senv) (e_rl_fault senv) (e_rl_write_fault senv) (e_now senv) (e_now senv) userId ''/api/suna/status'' 200 (rate_limits s) = (True, rls)"
    using assms(6) by (cases "checkRateLimit (e_zone senv) (e_rl_fault senv) (e_rl_write_fault senv) (e_now senv) (e_now senv) userId ''/api/suna/status'' 200 (rate_limits s)") simp
  obtain rlr where rlr: "checkRateLimit (e_zone renv) (e_rl_fault renv) (e_rl_write_fault renv) (e_now renv) (e_now renv) userId ''/api/suna/result'' 100 (rate_limits s) = (True, rlr)"
    using assms(7) by (cases "checkRateLimit (e_zone renv) (e_rl_fault renv) (e_rl_write_fault renv) (e_now renv) (e_now renv) userId ''/api/suna/result'' 100 (rate_limits s)") simp
  note S = status_GET_reach[OF assms(1,3,4) rls]
  note R = result_GET_reach[OF assms(2,3,5) rlr]
  have a: "http_status (fst (status_GET senv s)) = 404 \<and> http_status (fst (result_GET renv s)) = 404"
    if "\<not> list_ex (\<lambda>t. t_id t = taskId \<and> t_user_id t = userId) (tasks s)"
  proof -
    from no_task_Failed[OF that] obtain c1 c2 where
      "find_task (e_task_fault senv) taskId userId (tasks s) = Failed c1"
      "find_task (e_task_fault renv) taskId userId (tasks s) = Failed c2"
      by metis
    then show ?thesis unfolding S R by (simp add: status_task_def result_task_def)
  qed
  have b: "http_status (fst (result_GET renv s)) = 404"
    if "find_task (e_task_fault renv) taskId userId (tasks s) = Row task \<and>
          t_status task = ''completed'' \<and> e_mapping_read_fault renv = None \<and>
          \<not> list_ex (\<lambda>r. m_local_task_id r = taskId) (mappings s)"
    using that no_mapping_None[of taskId "mappings s"] unfolding R
    by (simp add: result_task_def)
  have c: "fst (status_GET senv s) =
              \<lparr>http_status = 200,
               body = StatusNoMapping taskId (t_status task) ''Task mapping not found''\<rparr>"
    if "find_task (e_task_fault senv) taskId userId (tasks s) = Row task \<and>
          e_mapping_read_fault senv = None \<and>
          \<not> list_ex (\<lambda>r. m_local_task_id r = taskId) (mappings s)"
    using that no_mapping_None[of taskId "mappings s"] unfolding S
    by (simp add: status_task_def)
  from a b c show ?thesis by blast
qed


theorem missing_task_or_mapping_status_codes_witness:
  "http_status (fst (status_GET (demo_status_env (FetchNotOk 500)) ((demo_store ''completed'' [])\<lparr>tasks := []\<rparr>))) = 404 \<and>
   http_status (fst (result_GET (demo_result_env (FetchNotOk 500) None) ((demo_store ''completed'' [])\<lparr>tasks := []\<rparr>))) = 404 \<and>
   http_status (fst (result_GET (demo_result_env (FetchNotOk 500) None) (demo_store ''completed'' []))) = 404 \<and>
   fst (status_GET (demo_status_env (FetchNotOk 500)) (demo_store ''completed'' [])) =
     \<lparr>http_status = 200, body = StatusNoMapping ''t1'' ''completed'' ''Task mapping not found''\<rparr>"
proof -
  let ?se = "demo_status_env (FetchNotOk 500)"
  let ?re = "demo_result_env (FetchNotOk 500) None"
  let ?S0 = "(demo_store ''completed'' [])\<lparr>tasks := []\<rparr>"
  let ?S1 = "demo_store ''completed'' []"
  have pre: "s_task_id ?se = Some ''t1''" "r_task_id ?re = Some ''t1''" "''t1'' \<noteq> []"
    "e_user ?se = Some ''u1''" "e_user ?re = Some ''u1''"
    by (simp_all add: demo_defs demo_result_env_def)
  have rl: "fst (checkRateLimit (e_zone ?se) (e_rl_fault ?se) (e_rl_write_fault ?se) (e_now ?se) (e_now ?se) ''u1'' ''/api/suna/status'' 200 (rate_limits s))"
    "fst (checkRateLimit (e_zone ?re) (e_rl_fault ?re) (e_rl_write_fault ?re) (e_now ?re) (e_now ?re) ''u1'' ''/api/suna/result'' 100 (rate_limits s))"
    if "rate_limits s = []" for s
    using that by (simp_all add: demo_defs demo_result_env_def rl_eval)
  have e0: "rate_limits ?S0 = []" and e1: "rate_limits ?S1 = []"
    by (simp_all add: demo_defs)
  have a: "\<not> list_ex (\<lambda>t. t_id t = ''t1'' \<and> t_user_id t = ''u1'') (tasks ?S0)"
    by (simp add: demo_defs)
  have b: "find_task (e_task_fault ?re) ''t1'' ''u1'' (tasks ?S1) = Row (demo_task ''completed'') \<and>
          t_status (demo_task ''completed'') = ''completed'' \<and> e_mapping_read_fault ?re = None \<and>
          \<not> list_ex (\<lambda>r. m_local_task_id r = ''t1'') (mappings ?S1)"
    by (simp add: demo_defs demo_result_env_def find_task_def query_single_def single_def)
  have c: "find_task (e_task_fault ?se) ''t1'' ''u1'' (tasks ?S1) = Row (demo_task ''completed'') \<and>
          e_mapping_read_fault ?se = None \<and>
          \<not> list_ex (\<lambda>r. m_local_task_id r = ''t1'') (mappings ?S1)"
    by (simp add: demo_defs find_task_def query_single_def single_def)
  have d: "t_status (demo_task ''completed'') = ''completed''" by (simp add: demo_defs)
  from missing_task_or_mapping_status_codes[OF pre rl[OF e0], of "demo_task ''completed''"] a
  have "http_status (fst (status_GET ?se ?S0)) = 404 \<and> http_status (fst (result_GET ?re ?S0)) = 404"
    by blast
  moreover from missing_task_or_mapping_status_codes[OF pre rl[OF e1], of "demo_task ''completed''"] b c
  have "http_status (fst (result_GET ?re ?S1)) = 404 \<and>
       fst (status_GET ?se ?S1) =
         \<lparr>http_status = 200, body = StatusNoMapping ''t1'' (t_status (demo_task ''completed'')) ''Task mapping not found''\<rparr>"
    by blast
  ultimately show ?thesis unfolding d by blast
qed

section \<open>Properties of submit\<close>

lemma generate_POST_reach:
  assumes "g_request env = Some requestData" "e_user env = Some userId"
    and "checkRateLimit (e_zone env) (e_rl_fault env) (e_rl_write_fault env) (e_now env) (e_now env) userId ''/api/suna/generate'' 50 (rate_limits s) = (True, rl)"
    and "truthy (e_jwt env)"
  shows "generate_POST env s = generate_task env requestData userId (s\<lparr>rate_limits := rl\<rparr>)"
  using assms by (simp add: generate_POST_def)

lemma generate_start_failed:
  assumes "init_error_text (g_init env) = Some message"
  shows "generate_start env localTaskId s = generate_failed env localTaskId message s"
  using assms by (cases "g_init env") (simp_all add: init_error_text_def generate_start_def)

lemma filter_none:
  "\<not> list_ex P xs \<Longrightarrow> filter P xs = []"
  by (simp add: list_ex_iff filter_empty_conv)

lemma filter_none_weaker:
  assumes "\<not> list_ex P xs" and "\<And>x. Q x \<Longrightarrow> P x"
  shows "filter Q xs = []"
  using assms by (auto simp: list_ex_iff filter_empty_conv)

lemmas generate_eval = generate_POST_def generate_task_def generate_start_def
  generate_failed_def createSunaTaskMapping_def updateSunaTaskStatus_def update_tasks_def
  apply_patch_def set_if_def truthy_def rl_eval demo_defs demo_generate_env_def Let_def

text \<open>
  C8, as the claim states it, fails when storage rejects the update of the mapping in
  the \<open>catch\<close> block: \<open>updateSunaTaskStatus\<close> throws there, outside every inner
  \<open>try\<close>, and the outer \<open>catch\<close> answers. Here the service answers 503 and the
  update of the mapping is rejected: the response is only the error
  \<open>Internal server error\<close>, without the task id, and the mapping stays \<open>pending\<close>,
  while the new task is \<open>failed\<close>.
\<close>

theorem submit_failure_rejected_mapping_update:
  "fst (generate_POST
      ((demo_generate_env (FetchNotOk 503))\<lparr>e_mapping_write_fault := Some ''rejected''\<rparr>)
      (demo_store ''completed'' [])) =
     \<lparr>http_status = 500, body = GenError ''Internal server error''\<rparr> \<and>
   map m_status (mappings (snd (generate_POST
      ((demo_generate_env (FetchNotOk 503))\<lparr>e_mapping_write_fault := Some ''rejected''\<rparr>)
      (demo_store ''completed'' [])))) = [''pending''] \<and>
   map t_status (tasks (snd (generate_POST
      ((demo_generate_env (FetchNotOk 503))\<lparr>e_mapping_write_fault := Some ''rejected''\<rparr>)
      (demo_store ''completed'' [])))) = [''completed'', ''failed'']"
  by (simp add: generate_eval)

text \<open>
  C8, amended. A submit request passes authentication and rate limiting and has a
  session token; the task and its mapping are created (the generated task id is new
  and storage accepts both rows), and initiating the external job fails with the
  error text \<open>message\<close>. Then the task and the mapping are written by two separate
  updates. The task read back from the store has status \<open>failed\<close> and the error
  message \<open>message\<close> when storage accepts its update, and is still \<open>pending\<close> when
  storage rejects it (the handler does not notice). When storage accepts the update
  of the mapping, the mapping read back has status \<open>failed\<close> and the error message
  \<open>message\<close>, and the response body is the failed-start body with the local task id
  and the status \<open>failed\<close> (sent with HTTP status 500); when storage rejects it, the
  mapping is still \<open>pending\<close> and the response is the error
  \<open>Internal server error\<close> (500) without the task id.
\<close>

theorem submit_failure_is_recorded:
  assumes "g_request env = Some requestData" and "e_user env = Some userId"
    and "fst (checkRateLimit (e_zone env) (e_rl_fault env) (e_rl_write_fault env) (e_now env) (e_now env) userId ''/api/suna/generate'' 50 (rate_limits s))"
    and "truthy (e_jwt env)"
    and "g_task_insert_fault env = None"
    and "\<not> list_ex (\<lambda>t. t_id t = g_new_task_id env) (tasks s)"
    and "g_mapping_create_fault env = None"
    and "\<not> list_ex (\<lambda>r. m_local_task_id r = g_new_task_id env) (mappings s)"
    and "init_error_text (g_init env) = Some message"
  shows "(\<exists>t'. find_task None (g_new_task_id env) userId (tasks (snd (generate_POST env s))) = Row t' \<and>
            (case e_task_write_fault env of
               None \<Rightarrow> t_status t' = ''failed'' \<and> t_error_message t' = Some message
             | Some msg \<Rightarrow> t_status t' = ''pending'' \<and> t_error_message t' = None)) \<and>
         (\<exists>m'. getSunaTaskMapping None (g_new_task_id env) (mappings (snd (generate_POST env s))) =
                 Inr (Some m') \<and>
            (case e_mapping_write_fault env of
               None \<Rightarrow>
                 m_status m' = ''failed'' \<and> m_error_message m' = Some message \<and>
                 fst (generate_POST env s) =
                   \<lparr>http_status = 500,
                    body = GenFailed (g_new_task_id env) ''failed''
                             ''Failed to start story generation''\<rparr>
             | Some msg \<Rightarrow>
                 m_status m' = ''pending'' \<and> m_error_message m' = None \<and>
                 fst (generate_POST env s) =
                   \<lparr>http_status = 500, body = GenError ''Internal server error''\<rparr>))"
proof -
  obtain rl where rl: "checkRateLimit (e_zone env) (e_rl_fault env) (e_rl_write_fault env) (e_now env) (e_now env) userId ''/api/suna/generate'' 50 (rate_limits s) = (True, rl)"
    using assms(3) by (cases "checkRateLimit (e_zone env) (e_rl_fault env) (e_rl_write_fault env) (e_now env) (e_now env) userId ''/api/suna/generate'' 50 (rate_limits s)") simp
  let ?id = "g_new_task_id env"
  let ?s0 = "s\<lparr>rate_limits := rl\<rparr>"
  let ?new = "\<lparr>t_id = ?id, t_user_id = userId,
                t_story_description = rd_story_description requestData,
                t_tags = rd_tags requestData, t_custom_tags = rd_custom_tags requestData,
                t_status = ''pending'', t_progress = None, t_error_message = None,
                t_suna_thread_id = None, t_suna_agent_run_id = None,
                t_created_at = e_now env, t_updated_at = e_now env,
                t_completed_at = None\<rparr>"
  let ?row = "\<lparr>m_local_task_id = ?id, m_user_id = userId,
                m_suna_thread_id = None, m_suna_agent_run_id = None,
                m_status = ''pending'', m_request_data = Some requestData,
                m_response_data = None, m_error_message = None,
                m_retry_count = 0, m_max_retries = 3, m_updated_at = e_now env\<rparr>"
  let ?updt = "\<lambda>t. if t_id t = ?id then t\<lparr>t_status := ''failed'', t_error_message := Some message\<rparr> else t"
  let ?p = "\<lparr>up_suna_thread_id = None, up_suna_agent_run_id = None,
                 up_status = Some ''failed'', up_response_data = None,
                 up_error_message = Some (Some message)\<rparr>"
  let ?updm = "\<lambda>r. if m_local_task_id r = ?id then apply_patch (e_now env) ?p r else r"
  let ?ts = "update_tasks (e_task_write_fault env) ?updt (tasks s @ [?new])"
  let ?ms = "case e_mapping_write_fault env of
               None \<Rightarrow> map ?updm (mappings s @ [?row]) | Some msg \<Rightarrow> mappings s @ [?row]"
  let ?resp = "case e_mapping_write_fault env of
               None \<Rightarrow> \<lparr>http_status = 500,
                         body = GenFailed ?id ''failed'' ''Failed to start story generation''\<rparr>
             | Some msg \<Rightarrow> \<lparr>http_status = 500, body = GenError ''Internal server error''\<rparr>"
  let ?s2 = "?s0\<lparr>tasks := tasks s @ [?new], mappings := mappings s @ [?row]\<rparr>"
  let ?s3 = "?s2\<lparr>tasks := ?ts, mappings := ?ms\<rparr>"
  have failed: "(case generate_failed env ?id message ?s2 of
                   (Inl err, s2) \<Rightarrow>
                     (\<lparr>http_status = 500, body = GenError ''Internal server error''\<rparr>, s2)
                 | (Inr resp, s2) \<Rightarrow> (resp, s2)) = (?resp, ?s3)"
    by (cases "e_mapping_write_fault env")
       (simp_all add: generate_failed_def updateSunaTaskStatus_def)
  have task: "generate_task env requestData userId ?s0 = (?resp, ?s3)"
    using assms(5,6,7,8) generate_start_failed[OF assms(9), of ?id ?s2] failed
    by (simp add: generate_task_def createSunaTaskMapping_def Let_def)
  have run: "generate_POST env s = (?resp, ?s3)"
    using generate_POST_reach[OF assms(1,2) rl assms(4)] task by simp
  have f0: "filter (\<lambda>t. t_id t = ?id \<and> t_user_id t = userId) (tasks s) = []"
    by (rule filter_none_weaker[OF assms(6)]) simp
  have tpart: "\<exists>t'. find_task None ?id userId (tasks (snd (generate_POST env s))) = Row t' \<and>
            (case e_task_write_fault env of
               None \<Rightarrow> t_status t' = ''failed'' \<and> t_error_message t' = Some message
             | Some msg \<Rightarrow> t_status t' = ''pending'' \<and> t_error_message t' = None)"
  proof (cases "e_task_write_fault env")
    case None
    have "filter (\<lambda>t. t_id t = ?id \<and> t_user_id t = userId) (map ?updt (tasks s @ [?new]))
        = map ?updt (filter (\<lambda>t. t_id t = ?id \<and> t_user_id t = userId) (tasks s @ [?new]))"
      by (rule filter_map_same) simp
    with f0 have "filter (\<lambda>t. t_id t = ?id \<and> t_user_id t = userId) (map ?updt (tasks s @ [?new])) = [?updt ?new]"
      by simp
    then have "find_task None ?id userId (tasks (snd (generate_POST env s))) = Row (?updt ?new)"
      unfolding run using None by (simp add: find_task_def query_single_def single_def update_tasks_def)
    moreover have "t_status (?updt ?new) = ''failed'' \<and> t_error_message (?updt ?new) = Some message"
      by simp
    ultimately show ?thesis by (simp add: None)
  next
    case (Some msg)
    have "find_task None ?id userId (tasks (snd (generate_POST env s))) = Row ?new"
      unfolding run using Some f0 by (simp add: find_task_def query_single_def single_def update_tasks_def)
    moreover have "t_status ?new = ''pending'' \<and> t_error_message ?new = None"
      by simp
    ultimately show ?thesis by (simp add: Some)
  qed
  have m0: "filter (\<lambda>r. m_local_task_id r = ?id) (mappings s) = []"
    by (rule filter_none[OF assms(8)])
  have mpart: "\<exists>m'. getSunaTaskMapping None ?id (mappings (snd (generate_POST env s))) =
                 Inr (Some m') \<and>
            (case e_mapping_write_fault env of
               None \<Rightarrow>
                 m_status m' = ''failed'' \<and> m_error_message m' = Some message \<and>
                 fst (generate_POST env s) =
                   \<lparr>http_status = 500,
                    body = GenFailed ?id ''failed'' ''Failed to start story generation''\<rparr>
             | Some msg \<Rightarrow>
                 m_status m' = ''pending'' \<and> m_error_message m' = None \<and>
                 fst (generate_POST env s) =
                   \<lparr>http_status = 500, body = GenError ''Internal server error''\<rparr>)"
  proof (cases "e_mapping_write_fault env")
    case None
    have "filter (\<lambda>r. m_local_task_id r = ?id) (map ?updm (mappings s @ [?row]))
        = map ?updm (filter (\<lambda>r. m_local_task_id r = ?id) (mappings s @ [?row]))"
      by (rule filter_map_same) (simp add: apply_patch_def)
    with m0 have "filter (\<lambda>r. m_local_task_id r = ?id) (map ?updm (mappings s @ [?row])) = [?updm ?row]"
      by simp
    then have 1: "getSunaTaskMapping None ?id (mappings (snd (generate_POST env s))) = Inr (Some (?updm ?row))"
      unfolding run using None by (simp add: getSunaTaskMapping_def query_single_def single_def)
    have 2: "m_status (?updm ?row) = ''failed'' \<and> m_error_message (?updm ?row) = Some message"
      by (simp add: apply_patch_def set_if_def)
    have 3: "fst (generate_POST env s) =
                   \<lparr>http_status = 500,
                    body = GenFailed ?id ''failed'' ''Failed to start story generation''\<rparr>"
      unfolding run using None by simp
    from 1 2 3 show ?thesis by (simp add: None)
  next
    case (Some msg)
    have 1: "getSunaTaskMapping None ?id (mappings (snd (generate_POST env s))) = Inr (Some ?row)"
      unfolding run using Some m0 by (simp add: getSunaTaskMapping_def query_single_def single_def)
    have 2: "m_status ?row = ''pending'' \<and> m_error_message ?row = None"
      by simp
    have 3: "fst (generate_POST env s) =
                   \<lparr>http_status = 500, body = GenError ''Internal server error''\<rparr>"
      unfolding run using Some by simp
    from 1 2 3 show ?thesis by (simp add: Some)
  qed
  from tpart mpart show ?thesis by (rule conjI)
qed

theorem submit_failure_is_recorded_witness:
  "(\<exists>t'. find_task None ''t2'' ''u1''
       (tasks (snd (generate_POST (demo_generate_env (FetchNotOk 503)) (demo_store ''completed'' [demo_mapping])))) = Row t' \<and>
     t_status t' = ''failed'' \<and> t_error_message t' = Some ''Suna AI API error: 503'') \<and>
   (\<exists>m'. getSunaTaskMapping None ''t2''
       (mappings (snd (generate_POST (demo_generate_env (FetchNotOk 503)) (demo_store ''completed'' [demo_mapping])))) = Inr (Some m') \<and>
     m_status m' = ''failed'' \<and> m_error_message m' = Some ''Suna AI API error: 503'' \<and>
     fst (generate_POST (demo_generate_env (FetchNotOk 503)) (demo_store ''completed'' [demo_mapping])) =
       \<lparr>http_status = 500,
        body = GenFailed ''t2'' ''failed'' ''Failed to start story generation''\<rparr>)"
proof -
  let ?E = "demo_generate_env (FetchNotOk 503)"
  let ?S = "demo_store ''completed'' [demo_mapping]"
  have pre: "g_request ?E = Some \<lparr>rd_story_description = ascii ''a rabbit'', rd_tags = None,
                        rd_custom_tags = None\<rparr>"
    "e_user ?E = Some ''u1''"
    "fst (checkRateLimit (e_zone ?E) (e_rl_fault ?E) (e_rl_write_fault ?E) (e_now ?E) (e_now ?E)
            ''u1'' ''/api/suna/generate'' 50 (rate_limits ?S))"
    "truthy (e_jwt ?E)"
    "g_task_insert_fault ?E = None"
    "\<not> list_ex (\<lambda>t. t_id t = g_new_task_id ?E) (tasks ?S)"
    "g_mapping_create_fault ?E = None"
    "\<not> list_ex (\<lambda>r. m_local_task_id r = g_new_task_id ?E) (mappings ?S)"
    "init_error_text (g_init ?E) = Some ''Suna AI API error: 503''"
    by (simp_all add: demo_generate_env_def demo_defs rl_eval truthy_def init_error_text_def)
  have id: "g_new_task_id ?E = ''t2''" "e_task_write_fault ?E = None"
    "e_mapping_write_fault ?E = None"
    by (simp_all add: demo_generate_env_def)
  from submit_failure_is_recorded[OF pre] show ?thesis unfolding id by simp
qed

section \<open>Properties of the result fetch\<close>

lemma result_GET_stream:
  assumes "result_reaches_stream env s taskId userId task"
  shows "\<exists>rl. result_GET env s =
     (case stream_text env of
        None \<Rightarrow> (fetch_failed taskId, s\<lparr>rate_limits := rl\<rparr>)
      | Some result \<Rightarrow>
          (case result_store env taskId userId task result (s\<lparr>rate_limits := rl\<rparr>) of
             (Inl sunaError, s1) \<Rightarrow> (fetch_failed taskId, s1)
           | (Inr resp, s1) \<Rightarrow> (resp, s1)))"
proof -
  from assms have a: "r_task_id env = Some taskId" "taskId \<noteq> []" "e_user env = Some userId"
    "fst (checkRateLimit (e_zone env) (e_rl_fault env) (e_rl_write_fault env) (e_now env) (e_now env) userId
             ''/api/suna/result'' 100 (rate_limits s))"
    "find_task (e_task_fault env) taskId userId (tasks s) = Row task"
    "t_status task = ''completed''" "truthy (e_jwt env)"
    by (simp_all add: result_reaches_stream_def)
  from assms obtain m where m: "getSunaTaskMapping (e_mapping_read_fault env) taskId (mappings s) = Inr (Some m)"
    "truthy (m_suna_agent_run_id m)"
    by (auto simp: result_reaches_stream_def split: sum.splits option.splits)
  obtain rl where rl: "checkRateLimit (e_zone env) (e_rl_fault env) (e_rl_write_fault env) (e_now env) (e_now env) userId ''/api/suna/result'' 100 (rate_limits s) = (True, rl)"
    using a(4) by (cases "checkRateLimit (e_zone env) (e_rl_fault env) (e_rl_write_fault env) (e_now env) (e_now env) userId ''/api/suna/result'' 100 (rate_limits s)") simp
  let ?s0 = "s\<lparr>rate_limits := rl\<rparr>"
  have task: "result_GET env s =
      (case result_fetch env taskId userId task ?s0 of
         (Inl sunaError, s1) \<Rightarrow> (fetch_failed taskId, s1)
       | (Inr resp, s1) \<Rightarrow> (resp, s1))"
    unfolding result_GET_reach[OF a(1,2,3) rl] fetch_failed_def
    using a(5,6) m by (simp add: result_task_def)
  have "result_GET env s =
     (case stream_text env of
        None \<Rightarrow> (fetch_failed taskId, ?s0)
      | Some result \<Rightarrow>
          (case result_store env taskId userId task result ?s0 of
             (Inl sunaError, s1) \<Rightarrow> (fetch_failed taskId, s1)
           | (Inr resp, s1) \<Rightarrow> (resp, s1)))"
    unfolding task fetch_failed_def using a(7)
    by (cases "r_stream env") (simp_all add: result_fetch_def stream_text_def)
  then show ?thesis by blast
qed


lemma no_storybook_Failed:
  assumes "task_storybooks taskId s = []"
  shows "\<exists>code. query_single fault (filter (\<lambda>b. sb_generation_task_id b = taskId) (storybooks s)) = Failed code"
  using assms by (simp add: task_storybooks_def query_single_def single_def split: option.splits)

lemma result_store_new:
  assumes "task_storybooks taskId s = []"
  shows "result_store env taskId userId task result s =
     (let storyData = parseStoryContent result;
          newStorybook = new_storybook env taskId task storyData s;
          newPages = page_rows (sb_id newStorybook) (e_now env) (pages storyData)
      in if title storyData \<noteq> [] \<and> pages storyData \<noteq> [] then
           (case r_storybook_insert_fault env of
              Some msg \<Rightarrow> (Inl (JsError (''Failed to create storybook: '' @ msg)), s)
            | None \<Rightarrow>
                (case r_pages_insert_fault env of
                   Some msg \<Rightarrow>
                     (Inl (JsError (''Failed to create pages: '' @ msg)),
                      s\<lparr>storybooks := storybooks s @ [newStorybook]\<rparr>)
                 | None \<Rightarrow>
                     (Inr \<lparr>http_status = 200,
                           body = ResultStorybook taskId ''completed''
                             \<lparr>sv_storybook = newStorybook, sv_pages = newPages\<rparr> result\<rparr>,
                      s\<lparr>storybooks := storybooks s @ [newStorybook],
                        storybook_pages := storybook_pages s @ newPages,
                        user_storybooks :=
                          (if r_user_storybook_insert_fault env \<noteq> None
                           then user_storybooks s
                           else user_storybooks s @
                             [\<lparr>us_user_id = userId, us_storybook_id = sb_id newStorybook,
                               us_created_at = e_now env\<rparr>])\<rparr>)))
         else
           (Inr \<lparr>http_status = 200,
                 body = ResultParseFailed taskId ''completed'' result
                          ''Failed to parse story content''\<rparr>, s))"
proof -
  from no_storybook_Failed[OF assms] obtain code where
    "query_single (r_storybook_read_fault env) (filter (\<lambda>b. sb_generation_task_id b = taskId) (storybooks s)) = Failed code"
    by blast
  then show ?thesis
    by (cases "r_user_storybook_insert_fault env")
       (simp_all add: result_store_def new_storybook_def Let_def split: option.splits)
qed


lemma demo_story_parsed:
  "parseStoryContent demo_story =
     \<lparr>title = ascii ''T'', pages = [\<lparr>ptext = ascii ''a'', pimage = ascii ''b''\<rparr>]\<rparr>"
  by (simp add: demo_story_def parseStoryContent_def content_lines_def parse_lines_def
      parse_line_def parse_init_def push_current_def split_on_def newline_def trim_def
      is_ws_def is_digit_def is_page_header_def starts_with_def title_marker_def
      text_marker_def image_marker_def ascii_def)

lemma demo_stream_text:
  "stream_text (demo_result_env (FetchOk (Some demo_chunks)) f) = Some demo_story"
  by (simp add: stream_text_def demo_result_env_def demo_chunks_def demo_parse_def
      read_stream_def process_chunk_def process_line_def split_on_def newline_def
      starts_with_def ascii_def demo_story_json_def title_marker_def text_marker_def
      image_marker_def)

lemma demo_reaches:
  "result_reaches_stream (demo_result_env st f) (demo_store ''completed'' [demo_mapping])
     ''t1'' ''u1'' (demo_task ''completed'')"
  by (simp add: result_reaches_stream_def demo_defs rl_eval find_task_def
      getSunaTaskMapping_def truthy_def)

lemma parse_empty: "parseStoryContent [] = \<lparr>title = [], pages = []\<rparr>"
  by (simp add: parseStoryContent_def content_lines_def parse_lines_def parse_init_def
      push_current_def split_on_def trim_def)


text \<open>
  C1, as the claim states it, fails in its atomicity: the storybook row and its page
  rows are written by two successive inserts, and nothing undoes the first when the
  second is rejected. Here the task has no storybook, the story parses to a title and
  one page, and storage rejects the insert of the pages: the request leaves the
  storybook row of the task in the store, with no page row.
\<close>

theorem result_fetch_leaves_storybook_without_pages:
  "task_storybooks ''t1'' (demo_store ''completed'' [demo_mapping]) = [] \<and>
   task_storybooks ''t1''
     (snd (result_GET (demo_result_env (FetchOk (Some demo_chunks)) (Some ''rejected''))
             (demo_store ''completed'' [demo_mapping]))) =
     [\<lparr>sb_id = 1, sb_title = ascii ''T'', sb_description = ascii ''a rabbit'',
       sb_generation_task_id = ''t1'', sb_created_at = 5000\<rparr>] \<and>
   storybook_pages
     (snd (result_GET (demo_result_env (FetchOk (Some demo_chunks)) (Some ''rejected''))
             (demo_store ''completed'' [demo_mapping]))) = []"
proof -
  let ?E = "demo_result_env (FetchOk (Some demo_chunks)) (Some ''rejected'')"
  let ?S = "demo_store ''completed'' [demo_mapping]"
  have none: "task_storybooks ''t1'' ?S = []"
    by (simp add: task_storybooks_def demo_defs)
  have st: "r_stream ?E = FetchOk (Some demo_chunks)" "r_json_parse ?E = demo_parse"
    by (simp_all add: demo_defs)
  have acc: "fst (read_stream demo_parse demo_chunks) = demo_story"
    using demo_stream_text[of None] by (simp add: stream_text_def demo_defs)
  have "snd (result_GET ?E ?S) =
     ?S\<lparr>rate_limits := snd (checkRateLimit utc_zone None None 5000 5000 ''u1'' ''/api/suna/result'' 100 []),
        storybooks := [\<lparr>sb_id = 1, sb_title = ascii ''T'', sb_description = ascii ''a rabbit'',
       sb_generation_task_id = ''t1'', sb_created_at = 5000\<rparr>]\<rparr>"
    by (simp add: result_GET_def result_task_def result_fetch_def result_store_def acc
        demo_story_parsed demo_defs rl_eval find_task_def getSunaTaskMapping_def truthy_def
        Let_def ascii_def)
  with none show ?thesis by (simp add: task_storybooks_def demo_defs)
qed


text \<open>
  C1, amended. A result fetch reaches the stream and reads it, and the task has no
  storybook yet. When the accumulated text parses to a non-empty title and at least
  one page, the storybook row is inserted and then, by a second insert, its page
  rows: if storage accepts both, both are in the store and the response carries
  them; if the first is rejected, nothing is written; if the second is rejected, the
  storybook row stays without pages; in both failures the answer is the 500 of a
  failed fetch. When parsing yields no title or no page, the response carries the
  raw accumulated text with the parse-failure message, and nothing is written.
\<close>

theorem result_fetch_persists_iff_parsed:
  assumes "result_reaches_stream env s taskId userId task"
    and "stream_text env = Some result"
    and "task_storybooks taskId s = []"
    and "result_GET env s = (resp, s')"
  shows "let storyData = parseStoryContent result;
             newStorybook = new_storybook env taskId task storyData s;
             newPages = page_rows (sb_id newStorybook) (e_now env) (pages storyData)
         in if title storyData \<noteq> [] \<and> pages storyData \<noteq> [] then
              (case r_storybook_insert_fault env of
                 Some msg \<Rightarrow>
                   storybooks s' = storybooks s \<and> storybook_pages s' = storybook_pages s \<and>
                   resp = fetch_failed taskId
               | None \<Rightarrow>
                   storybooks s' = storybooks s @ [newStorybook] \<and>
                   (case r_pages_insert_fault env of
                      Some msg \<Rightarrow>
                        storybook_pages s' = storybook_pages s \<and> resp = fetch_failed taskId
                    | None \<Rightarrow>
                        storybook_pages s' = storybook_pages s @ newPages \<and>
                        resp = \<lparr>http_status = 200,
                                body = ResultStorybook taskId ''completed''
                                  \<lparr>sv_storybook = newStorybook, sv_pages = newPages\<rparr> result\<rparr>))
            else
              storybooks s' = storybooks s \<and> storybook_pages s' = storybook_pages s \<and>
              resp = \<lparr>http_status = 200,
                      body = ResultParseFailed taskId ''completed'' result
                               ''Failed to parse story content''\<rparr>"
proof -
  from result_GET_stream[OF assms(1)] assms(2,4) obtain rl where
    run: "(resp, s') = (case result_store env taskId userId task result (s\<lparr>rate_limits := rl\<rparr>) of
             (Inl sunaError, s1) \<Rightarrow> (fetch_failed taskId, s1)
           | (Inr resp, s1) \<Rightarrow> (resp, s1))"
    by auto
  have none: "task_storybooks taskId (s\<lparr>rate_limits := rl\<rparr>) = []"
    using assms(3) by (simp add: task_storybooks_def)
  have nb: "new_storybook env taskId task sd (s\<lparr>rate_limits := rl\<rparr>) = new_storybook env taskId task sd s" for sd
    by (simp add: new_storybook_def)
  show ?thesis
    using run unfolding result_store_new[OF none] nb
    by (cases "title (parseStoryContent result) \<noteq> [] \<and> pages (parseStoryContent result) \<noteq> []")
       (auto simp: Let_def split: option.splits)
qed

theorem result_fetch_persists_iff_parsed_witness:
  "storybooks (snd (result_GET (demo_result_env (FetchOk (Some demo_chunks)) None)
                      (demo_store ''completed'' [demo_mapping]))) =
     [\<lparr>sb_id = 1, sb_title = ascii ''T'', sb_description = ascii ''a rabbit'',
       sb_generation_task_id = ''t1'', sb_created_at = 5000\<rparr>] \<and>
   storybook_pages (snd (result_GET (demo_result_env (FetchOk (Some demo_chunks)) None)
                      (demo_store ''completed'' [demo_mapping]))) =
     [\<lparr>pg_storybook_id = 1, pg_page_number = 1, pg_content = ascii ''a'',
       pg_image_description = ascii ''b'', pg_created_at = 5000\<rparr>] \<and>
   storybooks (snd (result_GET (demo_result_env (FetchOk None) None)
                      (demo_store ''completed'' [demo_mapping]))) = [] \<and>
   storybook_pages (snd (result_GET (demo_result_env (FetchOk None) None)
                      (demo_store ''completed'' [demo_mapping]))) = [] \<and>
   fst (result_GET (demo_result_env (FetchOk None) None)
                      (demo_store ''completed'' [demo_mapping])) =
     \<lparr>http_status = 200,
      body = ResultParseFailed ''t1'' ''completed'' [] ''Failed to parse story content''\<rparr>"
proof -
  let ?S = "demo_store ''completed'' [demo_mapping]"
  have none: "task_storybooks ''t1'' ?S = []"
    by (simp add: task_storybooks_def demo_defs)
  have empty: "stream_text (demo_result_env (FetchOk None) None) = Some []"
    by (simp add: stream_text_def demo_defs)
  have run: "result_GET E ?S = (fst (result_GET E ?S), snd (result_GET E ?S))" for E
    by simp
  have f: "r_storybook_insert_fault (demo_result_env st None) = None"
    "r_pages_insert_fault (demo_result_env st None) = None"
    "e_now (demo_result_env st None) = 5000" for st
    by (simp_all add: demo_defs)
  have s: "storybooks ?S = []" "storybook_pages ?S = []"
    "t_story_description (demo_task ''completed'') = ascii ''a rabbit''"
    by (simp_all add: demo_defs)
  from result_fetch_persists_iff_parsed[OF demo_reaches[of "FetchOk (Some demo_chunks)" None] demo_stream_text[of None] none run]
    result_fetch_persists_iff_parsed[OF demo_reaches[of "FetchOk None" None] empty none run]
  show ?thesis
    by (simp add: demo_story_parsed parse_empty f s new_storybook_def page_rows_def
        fresh_id_def Let_def ascii_def)
qed

lemma result_GET_persists:
  assumes "result_reaches_stream env s taskId userId task"
    and "stream_text env = Some result"
    and "task_storybooks taskId s = []"
    and "r_storybook_insert_fault env = None" and "r_pages_insert_fault env = None"
    and "title (parseStoryContent result) \<noteq> []" and "pages (parseStoryContent result) \<noteq> []"
  shows "\<exists>rl. result_GET env s =
     (\<lparr>http_status = 200,
       body = ResultStorybook taskId ''completed''
         \<lparr>sv_storybook = new_storybook env taskId task (parseStoryContent result) s,
          sv_pages = page_rows (sb_id (new_storybook env taskId task (parseStoryContent result) s))
                       (e_now env) (pages (parseStoryContent result))\<rparr> result\<rparr>,
      s\<lparr>rate_limits := rl,
        storybooks := storybooks s @ [new_storybook env taskId task (parseStoryContent result) s],
        storybook_pages := storybook_pages s @
          page_rows (sb_id (new_storybook env taskId task (parseStoryContent result) s))
            (e_now env) (pages (parseStoryContent result)),
        user_storybooks :=
          (if r_user_storybook_insert_fault env \<noteq> None then user_storybooks s
           else user_storybooks s @
             [\<lparr>us_user_id = userId,
               us_storybook_id = sb_id (new_storybook env taskId task (parseStoryContent result) s),
               us_created_at = e_now env\<rparr>])\<rparr>)"
proof -
  from result_GET_stream[OF assms(1)] assms(2) obtain rl where
    run: "result_GET env s = (case result_store env taskId userId task result (s\<lparr>rate_limits := rl\<rparr>) of
             (Inl sunaError, s1) \<Rightarrow> (fetch_failed taskId, s1)
           | (Inr resp, s1) \<Rightarrow> (resp, s1))"
    by auto
  have none: "task_storybooks taskId (s\<lparr>rate_limits := rl\<rparr>) = []"
    using assms(3) by (simp add: task_storybooks_def)
  have nb: "new_storybook env taskId task sd (s\<lparr>rate_limits := rl\<rparr>) = new_storybook env taskId task sd s" for sd
    by (simp add: new_storybook_def)
  have "result_GET env s =
     (\<lparr>http_status = 200,
       body = ResultStorybook taskId ''completed''
         \<lparr>sv_storybook = new_storybook env taskId task (parseStoryContent result) s,
          sv_pages = page_rows (sb_id (new_storybook env taskId task (parseStoryContent result) s))
                       (e_now env) (pages (parseStoryContent result))\<rparr> result\<rparr>,
      s\<lparr>rate_limits := rl,
        storybooks := storybooks s @ [new_storybook env taskId task (parseStoryContent result) s],
        storybook_pages := storybook_pages s @
          page_rows (sb_id (new_storybook env taskId task (parseStoryContent result) s))
            (e_now env) (pages (parseStoryContent result)),
        user_storybooks :=
          (if r_user_storybook_insert_fault env \<noteq> None then user_storybooks s
           else user_storybooks s @
             [\<lparr>us_user_id = userId,
               us_storybook_id = sb_id (new_storybook env taskId task (parseStoryContent result) s),
               us_created_at = e_now env\<rparr>])\<rparr>)"
    unfolding run result_store_new[OF none] nb
    using assms(4,5,6,7) by (simp add: Let_def)
  then show ?thesis by blast
qed

text \<open>
  C10. When a result fetch persists a parsed document, the page rows it appends carry
  the numbers 1, 2, 3, ... in the order of the parsed pages, with the text and image
  of each page; and a text whose lines differ from those of the stream only in page
  headers (any numerals, in any order, repeated or with gaps) parses to the same
  document, so the numerals of the headers have no effect on what is stored.
\<close>

theorem persisted_pages_numbered_by_position:
  assumes "result_reaches_stream env s taskId userId task"
    and "stream_text env = Some result"
    and "task_storybooks taskId s = []"
    and "r_storybook_insert_fault env = None" and "r_pages_insert_fault env = None"
    and "title (parseStoryContent result) \<noteq> []" and "pages (parseStoryContent result) \<noteq> []"
    and "list_all2 (\<lambda>a b. a = b \<or> (is_page_header a \<and> is_page_header b))
           (content_lines result) (content_lines result')"
  shows "\<exists>rows. storybook_pages (snd (result_GET env s)) = storybook_pages s @ rows \<and>
           map pg_page_number rows = [1..<Suc (length (pages (parseStoryContent result)))] \<and>
           map pg_content rows = map ptext (pages (parseStoryContent result)) \<and>
           map pg_image_description rows = map pimage (pages (parseStoryContent result)) \<and>
           parseStoryContent result' = parseStoryContent result"
proof -
  let ?rows = "page_rows (sb_id (new_storybook env taskId task (parseStoryContent result) s))
                 (e_now env) (pages (parseStoryContent result))"
  from result_GET_persists[OF assms(1-7)]
  have "storybook_pages (snd (result_GET env s)) = storybook_pages s @ ?rows"
    by auto
  moreover have "parseStoryContent result' = parseStoryContent result"
    using foldl_parse_line_headers[OF assms(8), of parse_init]
    by (simp add: parseStoryContent_def parse_lines_def)
  ultimately show ?thesis
    using page_rows_numbers page_rows_content page_rows_image by blast
qed


theorem persisted_pages_numbered_by_position_witness:
  "map pg_page_number
     (storybook_pages (snd (result_GET (demo_result_env (FetchOk (Some demo_chunks)) None)
                              (demo_store ''completed'' [demo_mapping])))) = [1] \<and>
   parseStoryContent demo_story_renumbered = parseStoryContent demo_story"
proof -
  let ?E = "demo_result_env (FetchOk (Some demo_chunks)) None"
  let ?S = "demo_store ''completed'' [demo_mapping]"
  have none: "task_storybooks ''t1'' ?S = []"
    by (simp add: task_storybooks_def demo_defs)
  have f: "r_storybook_insert_fault ?E = None" "r_pages_insert_fault ?E = None"
    by (simp_all add: demo_defs)
  have p: "title (parseStoryContent demo_story) \<noteq> []" "pages (parseStoryContent demo_story) \<noteq> []"
    by (simp_all add: demo_story_parsed ascii_def)
  have h: "list_all2 (\<lambda>a b. a = b \<or> (is_page_header a \<and> is_page_header b))
           (content_lines demo_story) (content_lines demo_story_renumbered)"
    by (simp add: demo_story_def demo_story_renumbered_def content_lines_def split_on_def
        newline_def trim_def is_ws_def is_digit_def is_page_header_def title_marker_def
        text_marker_def image_marker_def ascii_def)
  have s: "storybook_pages ?S = []" by (simp add: demo_defs)
  from persisted_pages_numbered_by_position[OF demo_reaches[of "FetchOk (Some demo_chunks)" None] demo_stream_text[of None] none f p h]
  obtain rows where "storybook_pages (snd (result_GET ?E ?S)) = storybook_pages ?S @ rows"
    "map pg_page_number rows = [1..<Suc (length (pages (parseStoryContent demo_story)))]"
    "parseStoryContent demo_story_renumbered = parseStoryContent demo_story"
    by blast
  then show ?thesis by (simp add: s demo_story_parsed)
qed











end
